theory Spec2Isabelle
  imports Complex_Main
begin

section \<open>The WebGL neural-network animation (src/webgl-animation-system.js)\<close>

text \<open>
  A shallow embedding of class \<^verbatim>\<open>WebGLNeuralNetwork\<close>. JavaScript numbers are
  modelled as reals (\<^verbatim>\<open>Math.floor\<close> is \<open>\<lfloor>_\<rfloor>\<close>, \<^verbatim>\<open>Math.sqrt\<close> is \<open>sqrt\<close>,
  \<^verbatim>\<open>Math.sin\<close> is \<open>sin\<close>): rounding, infinities and NaN of IEEE doubles are outside
  the model. Every mutation of \<^verbatim>\<open>this\<close> is explicit state passing on the record
  \<open>network\<close>; the parts of the browser the class talks to (the GL context, the 2D
  context, the listener tables, the frame queue, the console) are fields of the same
  record, and what the browser answers (random numbers, shader compile status, device
  signals, layout) is the record \<open>env\<close>.
\<close>

subsection \<open>Options\<close>

record options =
  nodeCount :: real
  connectionDistance :: real
  nodeColor :: "real list"
  connectionColor :: "real list"
  glowColor :: "real list"
  nodeSize :: real
  speed :: real
  interactive :: bool
  pulseEffect :: bool
  adaptivePerformance :: bool
  theme :: string
  dataFlowEffect :: bool

text \<open>An options object as a caller passes it: every property may be absent.\<close>

record options_patch =
  new_nodeCount :: "real option"
  new_connectionDistance :: "real option"
  new_nodeColor :: "real list option"
  new_connectionColor :: "real list option"
  new_glowColor :: "real list option"
  new_nodeSize :: "real option"
  new_speed :: "real option"
  new_interactive :: "bool option"
  new_pulseEffect :: "bool option"
  new_adaptivePerformance :: "bool option"
  new_theme :: "string option"
  new_dataFlowEffect :: "bool option"

definition no_options :: options_patch where
  "no_options = \<lparr> new_nodeCount = None, new_connectionDistance = None, new_nodeColor = None,
     new_connectionColor = None, new_glowColor = None, new_nodeSize = None, new_speed = None,
     new_interactive = None, new_pulseEffect = None, new_adaptivePerformance = None,
     new_theme = None, new_dataFlowEffect = None \<rparr>"

definition default_options :: options where
  "default_options = \<lparr> nodeCount = 150, connectionDistance = 120,
     nodeColor = [0.31, 0.27, 0.9, 1.0], connectionColor = [0.31, 0.27, 0.9, 0.15],
     glowColor = [0.4, 0.35, 0.95, 0.3], nodeSize = 2.5, speed = 0.5,
     interactive = True, pulseEffect = True, adaptivePerformance = True,
     theme = ''light'', dataFlowEffect = True \<rparr>"

text \<open>The object spread \<^verbatim>\<open>{ ...base, ...patch }\<close>.\<close>

definition spread :: "options \<Rightarrow> options_patch \<Rightarrow> options" where
  "spread base p = \<lparr>
     nodeCount = (case new_nodeCount p of None \<Rightarrow> nodeCount base | Some v \<Rightarrow> v),
     connectionDistance =
       (case new_connectionDistance p of None \<Rightarrow> connectionDistance base | Some v \<Rightarrow> v),
     nodeColor = (case new_nodeColor p of None \<Rightarrow> nodeColor base | Some v \<Rightarrow> v),
     connectionColor =
       (case new_connectionColor p of None \<Rightarrow> connectionColor base | Some v \<Rightarrow> v),
     glowColor = (case new_glowColor p of None \<Rightarrow> glowColor base | Some v \<Rightarrow> v),
     nodeSize = (case new_nodeSize p of None \<Rightarrow> nodeSize base | Some v \<Rightarrow> v),
     speed = (case new_speed p of None \<Rightarrow> speed base | Some v \<Rightarrow> v),
     interactive = (case new_interactive p of None \<Rightarrow> interactive base | Some v \<Rightarrow> v),
     pulseEffect = (case new_pulseEffect p of None \<Rightarrow> pulseEffect base | Some v \<Rightarrow> v),
     adaptivePerformance =
       (case new_adaptivePerformance p of None \<Rightarrow> adaptivePerformance base | Some v \<Rightarrow> v),
     theme = (case new_theme p of None \<Rightarrow> theme base | Some v \<Rightarrow> v),
     dataFlowEffect =
       (case new_dataFlowEffect p of None \<Rightarrow> dataFlowEffect base | Some v \<Rightarrow> v) \<rparr>"

subsection \<open>Nodes, pointer, quality tier\<close>

record node =
  node_x :: real
  node_y :: real
  vx :: real
  vy :: real
  node_size :: real
  originalSize :: real
  pulseOffset :: real

record mouse_state =
  mouse_x :: real
  mouse_y :: real
  active :: bool

datatype tier = Low | Medium | High

subsection \<open>Exceptions\<close>

datatype js_error = TypeError

text \<open>
  A method either returns or throws; in both cases the mutations made so far stay on
  the object, so both carry the state.
\<close>

datatype 'a outcome = Returned 'a | Threw js_error 'a

definition and_then :: "'a outcome \<Rightarrow> ('a \<Rightarrow> 'a outcome) \<Rightarrow> 'a outcome" where
  "and_then r f = (case r of Returned s \<Rightarrow> f s | Threw err s \<Rightarrow> Threw err s)"

fun state_of :: "'a outcome \<Rightarrow> 'a" where
  "state_of (Returned s) = s"
| "state_of (Threw err s) = s"


subsection \<open>The browser: GL context, canvas, listeners, console\<close>

type_synonym handle = nat

datatype draw_mode = POINTS | LINES

text \<open>
  The GL calls the class issues, in order. Uniform uploads and attribute bindings are
  not recorded; \<open>BufferData b d\<close> stands for \<^verbatim>\<open>bindBuffer(ARRAY_BUFFER, b)\<close>
  followed by \<^verbatim>\<open>bufferData(ARRAY_BUFFER, d, _)\<close>.
\<close>

datatype gl_command =
    Viewport real real
  | BufferData "handle option" "real list"
  | UseProgram "handle option"
  | ClearColor real real real real
  | Clear
  | DrawArrays draw_mode nat
  | Finish
  | DeleteBuffer "handle option"
  | DeleteProgram "handle option"

text \<open>
  The context: the buffer and program objects that exist and are not deleted, the next
  unused object name, and the calls received. WebGL defines \<^verbatim>\<open>deleteBuffer\<close> and
  \<^verbatim>\<open>deleteProgram\<close> of \<^verbatim>\<open>null\<close> or of an object already deleted to have no effect.
\<close>

record gl_context =
  live_buffers :: "handle list"
  live_programs :: "handle list"
  next_handle :: handle
  gl_calls :: "gl_command list"

definition new_context :: gl_context where
  "new_context = \<lparr> live_buffers = [], live_programs = [], next_handle = 1, gl_calls = [] \<rparr>"

definition gl_call :: "gl_command \<Rightarrow> gl_context \<Rightarrow> gl_context" where
  "gl_call c g = g\<lparr> gl_calls := gl_calls g @ [c] \<rparr>"

definition gl_alloc :: "gl_context \<Rightarrow> handle \<times> gl_context" where
  "gl_alloc g = (next_handle g, g\<lparr> next_handle := Suc (next_handle g) \<rparr>)"

definition createBuffer :: "gl_context \<Rightarrow> handle \<times> gl_context" where
  "createBuffer g = (let (h, g1) = gl_alloc g in (h, g1\<lparr> live_buffers := live_buffers g1 @ [h] \<rparr>))"

definition createProgram :: "gl_context \<Rightarrow> handle \<times> gl_context" where
  "createProgram g =
     (let (h, g1) = gl_alloc g in (h, g1\<lparr> live_programs := live_programs g1 @ [h] \<rparr>))"

definition deleteBuffer :: "handle option \<Rightarrow> gl_context \<Rightarrow> gl_context" where
  "deleteBuffer b g =
     (gl_call (DeleteBuffer b) g)\<lparr> live_buffers := filter (\<lambda>h. Some h \<noteq> b) (live_buffers g) \<rparr>"

definition deleteProgram :: "handle option \<Rightarrow> gl_context \<Rightarrow> gl_context" where
  "deleteProgram p g =
     (gl_call (DeleteProgram p) g)\<lparr> live_programs := filter (\<lambda>h. Some h \<noteq> p) (live_programs g) \<rparr>"

datatype shader_source = NodeVertex | NodeFragment | ConnectionVertex | ConnectionFragment

record canvas_el =
  c_width :: real
  c_height :: real
  style_width :: "real option"
  style_height :: "real option"
  in_dom :: bool

text \<open>What the 2D fallback paints.\<close>

datatype ctx_command =
    FillRect string real real
  | Stroke real real real real real
  | FillGlow real real real
  | FillNode real real real

datatype target = Window | Container | Document

datatype handler =
    OnResize | OnMouseMove | OnMouseLeave | OnMouseEnter | OnTouchMove | OnTouchEnd
  | OnVisibilityChange

text \<open>
  A registered listener: target, event type, the identity of the function object and
  what the function does. \<^verbatim>\<open>f.bind(this)\<close> and an arrow function expression create a
  new function object each time they are evaluated; \<^verbatim>\<open>removeEventListener\<close> removes
  only a listener with the same function object.
\<close>

type_synonym listener = "target \<times> string \<times> nat \<times> handler"

datatype frame_callback = AnimateGL | AnimateCanvas

datatype level = Warn | Error | Info

type_synonym elem = nat

record env =
  querySelector :: "string \<Rightarrow> elem option"
  devicePixelRatio :: real
  webgl_context :: bool
  compile_status :: "shader_source \<Rightarrow> bool"
  link_status :: "shader_source \<Rightarrow> shader_source \<Rightarrow> bool"
  aliased_point_size_max :: real
  hardwareConcurrency :: "nat option"
  userAgent :: string
  max_width_768 :: bool
  max_width_1024 :: bool
  benchmark_ms :: real
  math_random :: "nat \<Rightarrow> real"
  has_IntersectionObserver :: bool
  initial_rect :: "real \<times> real"
  initial_now :: real
  canvas_left :: real
  canvas_top :: real

record network =
  container :: elem
  options :: options
  width :: real
  height :: real
  dpr :: real
  time :: real
  nodes :: "node list"
  mouse :: mouse_state
  isVisible :: bool
  shouldRender :: bool
  performanceLevel :: tier
  canvas :: "canvas_el option"
  gl :: "gl_context option"
  ctx :: "ctx_command list option"
  animate_method :: frame_callback
  nodeProgram :: "handle option"
  connectionProgram :: "handle option"
  nodePositionBuffer :: "handle option"
  nodeSizeBuffer :: "handle option"
  connectionPositionBuffer :: "handle option"
  visibilityObserver :: "bool option"
  listeners :: "listener list"
  next_function :: nat
  frame_queue :: "frame_callback list"
  console :: "(level \<times> string) list"
  random_calls :: nat
  uncaught :: "js_error list"

definition console_log :: "level \<Rightarrow> string \<Rightarrow> network \<Rightarrow> network" where
  "console_log l msg s = s\<lparr> console := console s @ [(l, msg)] \<rparr>"

text \<open>A \<^verbatim>\<open>this.gl.f(...)\<close> statement: a TypeError when \<^verbatim>\<open>this.gl\<close> is null.\<close>

definition with_gl :: "(gl_context \<Rightarrow> gl_context) \<Rightarrow> network \<Rightarrow> network outcome" where
  "with_gl f s = (case gl s of None \<Rightarrow> Threw TypeError s | Some g \<Rightarrow> Returned (s\<lparr> gl := Some (f g) \<rparr>))"

text \<open>A run of \<^verbatim>\<open>this.gl\<close> calls, issued in the order of the list.\<close>

definition gl_do :: "gl_command list \<Rightarrow> network \<Rightarrow> network outcome" where
  "gl_do cs s = with_gl (\<lambda>g. g\<lparr> gl_calls := gl_calls g @ cs \<rparr>) s"

subsection \<open>Shader programs and buffers\<close>

text \<open>
  \<^verbatim>\<open>createShaderProgram\<close>: the program, or \<^verbatim>\<open>null\<close> (here \<open>None\<close>) with an error
  on the console when a shader does not compile or the program does not link.
\<close>

definition createShaderProgram ::
  "env \<Rightarrow> shader_source \<Rightarrow> shader_source \<Rightarrow> network \<Rightarrow> (handle option \<times> network) outcome" where
  "createShaderProgram e vertexSource fragmentSource s =
     (case gl s of
        None \<Rightarrow> Threw TypeError (None, s)
      | Some g \<Rightarrow>
          let (vertexShader, g1) = gl_alloc g in
          if \<not> compile_status e vertexSource
          then Returned (None, console_log Error ''Vertex shader compilation failed:'' (s\<lparr> gl := Some g1 \<rparr>))
          else
            let (fragmentShader, g2) = gl_alloc g1 in
            if \<not> compile_status e fragmentSource
            then Returned (None, console_log Error ''Fragment shader compilation failed:'' (s\<lparr> gl := Some g2 \<rparr>))
            else
              let (program, g3) = createProgram g2 in
              if \<not> link_status e vertexSource fragmentSource
              then Returned (None, console_log Error ''Shader program linking failed:'' (s\<lparr> gl := Some g3 \<rparr>))
              else Returned (Some program, s\<lparr> gl := Some g3 \<rparr>))"

text \<open>
  \<^verbatim>\<open>setupShaders\<close>: both programs are created, then
  \<^verbatim>\<open>this.nodeProgram.aPosition = ...\<close> and \<^verbatim>\<open>this.connectionProgram.aPosition = ...\<close>
  set properties on them, a TypeError on \<^verbatim>\<open>null\<close>.
\<close>

definition setupShaders :: "env \<Rightarrow> network \<Rightarrow> network outcome" where
  "setupShaders e s =
     (case createShaderProgram e NodeVertex NodeFragment s of
        Threw err (p, s1) \<Rightarrow> Threw err s1
      | Returned (np, s1) \<Rightarrow>
          (case createShaderProgram e ConnectionVertex ConnectionFragment (s1\<lparr> nodeProgram := np \<rparr>) of
             Threw err (p, s2) \<Rightarrow> Threw err s2
           | Returned (cp, s2) \<Rightarrow>
               let s3 = s2\<lparr> connectionProgram := cp \<rparr> in
               if np = None then Threw TypeError s3
               else if cp = None then Threw TypeError s3
               else Returned s3))"

definition createBuffers :: "network \<Rightarrow> network outcome" where
  "createBuffers s =
     (case gl s of
        None \<Rightarrow> Threw TypeError s
      | Some g \<Rightarrow>
          let (b1, g1) = createBuffer g; (b2, g2) = createBuffer g1; (b3, g3) = createBuffer g2 in
          Returned (s\<lparr> nodePositionBuffer := Some b1, nodeSizeBuffer := Some b2,
                      connectionPositionBuffer := Some b3, gl := Some g3 \<rparr>))"

subsection \<open>Node count and seeding\<close>

definition adjustNodeCountForPerformance :: "network \<Rightarrow> int" where
  "adjustNodeCountForPerformance s =
     (let nodeCount0 = nodeCount (options s);
          screenArea = width s * height s;
          referenceArea = 1920 * 1080;
          sizeRatio = min 1 (screenArea / referenceArea);
          nodeCount1 = \<lfloor>nodeCount0 * sizeRatio\<rfloor>
      in if performanceLevel s = Low then min nodeCount1 50
         else if performanceLevel s = Medium then min nodeCount1 100
         else nodeCount1)"

text \<open>
  One pushed node: seven calls of \<^verbatim>\<open>Math.random()\<close> in the order of the object
  literal; \<open>k\<close> is the number of calls made before.
\<close>

definition new_node :: "(nat \<Rightarrow> real) \<Rightarrow> nat \<Rightarrow> real \<Rightarrow> real \<Rightarrow> options \<Rightarrow> node" where
  "new_node rnd k w h opts = \<lparr>
     node_x = rnd k * w,
     node_y = rnd (k + 1) * h,
     vx = (rnd (k + 2) - 0.5) * speed opts,
     vy = (rnd (k + 3) - 0.5) * speed opts,
     node_size = rnd (k + 4) * nodeSize opts + 1.5,
     originalSize = rnd (k + 5) * nodeSize opts + 1.5,
     pulseOffset = rnd (k + 6) * pi * 2 \<rparr>"

primrec push_nodes :: "(nat \<Rightarrow> real) \<Rightarrow> real \<Rightarrow> real \<Rightarrow> options \<Rightarrow> nat \<Rightarrow> nat \<Rightarrow> node list" where
  "push_nodes rnd w h opts 0 k = []"
| "push_nodes rnd w h opts (Suc n) k = new_node rnd k w h opts # push_nodes rnd w h opts n (k + 7)"

text \<open>The loop \<^verbatim>\<open>for (i = 0; i < count; i++)\<close> runs \<open>nat count\<close> times (none for a negative count).\<close>

definition createNodes :: "env \<Rightarrow> network \<Rightarrow> network" where
  "createNodes e s =
     (let count = nat (adjustNodeCountForPerformance s) in
      s\<lparr> nodes := push_nodes (math_random e) (width s) (height s) (options s) count (random_calls s),
         random_calls := random_calls s + 7 * count \<rparr>)"

subsection \<open>Canvas fallback and context acquisition\<close>

definition fallbackToCanvas :: "env \<Rightarrow> network \<Rightarrow> network" where
  "fallbackToCanvas e s =
     (let s1 = s\<lparr> gl := None, ctx := Some [], animate_method := AnimateCanvas \<rparr>;
          s2 = s1\<lparr> options := (options s1)\<lparr> nodeCount := min (nodeCount (options s1)) 50 \<rparr> \<rparr>;
          s3 = s2\<lparr> options := (options s2)\<lparr> connectionDistance := min (connectionDistance (options s2)) 100 \<rparr> \<rparr>
      in console_log Info ''Using Canvas fallback for neural network animation'' (createNodes e s3))"

definition initWebGL :: "env \<Rightarrow> network \<Rightarrow> network outcome" where
  "initWebGL e s =
     (let s1 = s\<lparr> canvas := Some \<lparr> c_width = 300, c_height = 150, style_width = None,
                                   style_height = None, in_dom = True \<rparr> \<rparr> in
      if \<not> webgl_context e
      then Returned (fallbackToCanvas e
             (console_log Error ''WebGL not supported. Falling back to Canvas rendering.'' s1))
      else and_then (setupShaders e (s1\<lparr> gl := Some new_context \<rparr>)) createBuffers)"

subsection \<open>Performance probe\<close>

definition lower_char :: "char \<Rightarrow> char" where
  "lower_char c = (let n = (of_char c :: nat) in if 65 \<le> n \<and> n \<le> 90 then char_of (n + 32) else c)"

fun starts_with_ci :: "string \<Rightarrow> string \<Rightarrow> bool" where
  "starts_with_ci [] cs = True"
| "starts_with_ci (p # ps) [] = False"
| "starts_with_ci (p # ps) (c # cs) = (lower_char p = lower_char c \<and> starts_with_ci ps cs)"

fun contains_ci :: "string \<Rightarrow> string \<Rightarrow> bool" where
  "contains_ci p [] = (p = [])"
| "contains_ci p (c # cs) = (starts_with_ci p (c # cs) \<or> contains_ci p cs)"

text \<open>\<^verbatim>\<open>/a|b|c/i.test(ua)\<close> for literal alternatives.\<close>

definition regex_test :: "string list \<Rightarrow> string \<Rightarrow> bool" where
  "regex_test alternatives ua = list_ex (\<lambda>p. contains_ci p ua) alternatives"

definition isLowEndDevice :: "env \<Rightarrow> bool" where
  "isLowEndDevice e =
     ((case hardwareConcurrency e of None \<Rightarrow> False | Some n \<Rightarrow> n \<noteq> 0 \<and> n \<le> 4)
      \<or> regex_test [''Android'', ''webOS'', ''iPhone'', ''iPod'', ''BlackBerry'', ''IEMobile'',
                     ''Opera Mini''] (userAgent e)
      \<or> max_width_768 e)"

definition isMidRangeDevice :: "env \<Rightarrow> bool" where
  "isMidRangeDevice e =
     ((case hardwareConcurrency e of None \<Rightarrow> False | Some n \<Rightarrow> n \<noteq> 0 \<and> n \<le> 6)
      \<or> regex_test [''iPad'', ''Android Tablet''] (userAgent e)
      \<or> max_width_1024 e)"

text \<open>The 1000 throwaway points of the benchmark, as uploaded (2000 calls of \<^verbatim>\<open>Math.random()\<close>).\<close>

primrec benchmark_positions :: "(nat \<Rightarrow> real) \<Rightarrow> real \<Rightarrow> real \<Rightarrow> nat \<Rightarrow> nat \<Rightarrow> real list" where
  "benchmark_positions rnd w h 0 k = []"
| "benchmark_positions rnd w h (Suc n) k =
     rnd k * w # rnd (k + 1) * h # benchmark_positions rnd w h n (k + 2)"

definition runWebGLBenchmark :: "env \<Rightarrow> network \<Rightarrow> network outcome" where
  "runWebGLBenchmark e s =
     (let positionData = benchmark_positions (math_random e) (width s) (height s) 1000 (random_calls s);
          sizeData = replicate 1000 3;
          s1 = s\<lparr> random_calls := random_calls s + 2000 \<rparr>
      in and_then (gl_do [BufferData (nodePositionBuffer s1) positionData,
                          BufferData (nodeSizeBuffer s1) sizeData,
                          UseProgram (nodeProgram s1)] s1)
         (\<lambda>s2. if nodeProgram s2 = None then Threw TypeError s2
               else and_then (gl_do [DrawArrays POINTS 1000, Finish] s2)
                 (\<lambda>s3. Returned
                    (if benchmark_ms e > 10
                     then (if performanceLevel s3 = High
                           then s3\<lparr> performanceLevel := Medium,
                                   options := (options s3)\<lparr> nodeCount := of_int \<lfloor>nodeCount (options s3) * 0.7\<rfloor> \<rparr> \<rparr>
                           else if performanceLevel s3 = Medium
                           then s3\<lparr> performanceLevel := Low,
                                   options := (options s3)\<lparr> nodeCount := of_int \<lfloor>nodeCount (options s3) * 0.5\<rfloor>,
                                                            dataFlowEffect := False \<rparr> \<rparr>
                           else s3)
                     else s3))))"

definition checkPerformance :: "env \<Rightarrow> network \<Rightarrow> network outcome" where
  "checkPerformance e s =
     runWebGLBenchmark e
       (if isLowEndDevice e
        then s\<lparr> performanceLevel := Low,
                options := (options s)\<lparr>
                  nodeCount := of_int \<lfloor>nodeCount (options s) * 0.3\<rfloor>,
                  connectionDistance := of_int \<lfloor>connectionDistance (options s) * 0.7\<rfloor>,
                  speed := speed (options s) * 0.7,
                  dataFlowEffect := False \<rparr> \<rparr>
        else if isMidRangeDevice e
        then s\<lparr> performanceLevel := Medium,
                options := (options s)\<lparr>
                  nodeCount := of_int \<lfloor>nodeCount (options s) * 0.6\<rfloor>,
                  connectionDistance := of_int \<lfloor>connectionDistance (options s) * 0.8\<rfloor> \<rparr> \<rparr>
        else s)"

subsection \<open>Listeners\<close>

text \<open>Evaluating \<^verbatim>\<open>f.bind(this)\<close> or an arrow function: a function object with a new identity.\<close>

definition new_function :: "network \<Rightarrow> nat \<times> network" where
  "new_function s = (next_function s, s\<lparr> next_function := Suc (next_function s) \<rparr>)"

definition addEventListener :: "target \<Rightarrow> string \<Rightarrow> handler \<Rightarrow> network \<Rightarrow> network" where
  "addEventListener tg ty h s =
     (let (f, s1) = new_function s in s1\<lparr> listeners := listeners s1 @ [(tg, ty, f, h)] \<rparr>)"

text \<open>
  \<^verbatim>\<open>target.removeEventListener(type, <new function>)\<close> as \<^verbatim>\<open>destroy\<close> writes it: the
  argument is evaluated to a new function object, and the listeners registered for the
  same target and type with that very object are removed.
\<close>

definition removeEventListener :: "target \<Rightarrow> string \<Rightarrow> network \<Rightarrow> network" where
  "removeEventListener tg ty s =
     (let (f, s1) = new_function s in
      s1\<lparr> listeners := filter (\<lambda>(tg', ty', f', h). \<not> (tg' = tg \<and> ty' = ty \<and> f' = f)) (listeners s1) \<rparr>)"

definition setupEventListeners :: "env \<Rightarrow> network \<Rightarrow> network" where
  "setupEventListeners e s =
     (let s1 = addEventListener Window ''resize'' OnResize s;
          s2 = (if interactive (options s1)
                then foldl (\<lambda>st (ty, h). addEventListener Container ty h st) s1
                       [(''mousemove'', OnMouseMove), (''mouseleave'', OnMouseLeave),
                        (''mouseenter'', OnMouseEnter), (''touchmove'', OnTouchMove),
                        (''touchstart'', OnTouchMove), (''touchend'', OnTouchEnd)]
                else s1);
          s3 = (if has_IntersectionObserver e then s2\<lparr> visibilityObserver := Some True \<rparr> else s2)
      in addEventListener Document ''visibilitychange'' OnVisibilityChange s3)"

definition handleMouseMove :: "env \<Rightarrow> real \<Rightarrow> real \<Rightarrow> network \<Rightarrow> network outcome" where
  "handleMouseMove e clientX clientY s =
     (case canvas s of
        None \<Rightarrow> Threw TypeError s
      | Some c \<Rightarrow> Returned (s\<lparr> mouse := \<lparr> mouse_x = clientX - canvas_left e,
                                          mouse_y = clientY - canvas_top e, active = True \<rparr> \<rparr>))"

definition handleTouchMove :: "env \<Rightarrow> (real \<times> real) list \<Rightarrow> network \<Rightarrow> network outcome" where
  "handleTouchMove e touches s =
     (case touches of
        [] \<Rightarrow> Returned s
      | (clientX, clientY) # rest \<Rightarrow> handleMouseMove e clientX clientY s)"

subsection \<open>Resize\<close>

text \<open>Every node gets a new position: two calls of \<^verbatim>\<open>Math.random()\<close> per node.\<close>

primrec reposition :: "(nat \<Rightarrow> real) \<Rightarrow> real \<Rightarrow> real \<Rightarrow> node list \<Rightarrow> nat \<Rightarrow> node list" where
  "reposition rnd w h [] k = []"
| "reposition rnd w h (n # ns) k =
     n\<lparr> node_x := rnd k * w, node_y := rnd (k + 1) * h \<rparr> # reposition rnd w h ns (k + 2)"

text \<open>
  \<^verbatim>\<open>resize\<close>, with the container's bounding rectangle \<open>(rw, rh)\<close> as the browser reports
  it. The dimensions are stored before \<^verbatim>\<open>this.gl.viewport\<close> is called, the nodes are
  moved after it.
\<close>

definition resize :: "env \<Rightarrow> real \<times> real \<Rightarrow> network \<Rightarrow> network outcome" where
  "resize e rect s =
     (let s1 = s\<lparr> width := fst rect, height := snd rect \<rparr> in
      case canvas s1 of
        None \<Rightarrow> Threw TypeError s1
      | Some c \<Rightarrow>
          let c1 = c\<lparr> c_width := width s1 * dpr s1, c_height := height s1 * dpr s1,
                      style_width := Some (width s1), style_height := Some (height s1) \<rparr>;
              s2 = s1\<lparr> canvas := Some c1 \<rparr>
          in and_then (gl_do [Viewport (c_width c1) (c_height c1)] s2)
               (\<lambda>s3. Returned (s3\<lparr> nodes := reposition (math_random e) (width s3) (height s3)
                                                (nodes s3) (random_calls s3),
                                    random_calls := random_calls s3 + 2 * length (nodes s3) \<rparr>)))"

subsection \<open>One simulation tick\<close>

definition integrate :: "node \<Rightarrow> node" where
  "integrate n = n\<lparr> node_x := node_x n + vx n, node_y := node_y n + vy n \<rparr>"

definition reflect_x :: "real \<Rightarrow> node \<Rightarrow> node" where
  "reflect_x w n =
     (if node_x n < 0 \<or> node_x n > w
      then n\<lparr> vx := vx n * - 1, node_x := max 0 (min w (node_x n)) \<rparr>
      else n)"

definition reflect_y :: "real \<Rightarrow> node \<Rightarrow> node" where
  "reflect_y h n =
     (if node_y n < 0 \<or> node_y n > h
      then n\<lparr> vy := vy n * - 1, node_y := max 0 (min h (node_y n)) \<rparr>
      else n)"

definition pulse :: "options \<Rightarrow> real \<Rightarrow> node \<Rightarrow> node" where
  "pulse opts t n =
     (if pulseEffect opts
      then (let pulseRate = 0.002; pulseAmount = 0.2 in
            n\<lparr> node_size := originalSize n * (1 + pulseAmount * sin (t * pulseRate + pulseOffset n)) \<rparr>)
      else n)"

text \<open>
  The pointer block. With a negative \<^verbatim>\<open>speed\<close> option the source can divide by a zero
  magnitude; that case produces NaN in JavaScript and is not meaningful here.
\<close>

definition mouse_interaction :: "options \<Rightarrow> mouse_state \<Rightarrow> node \<Rightarrow> node" where
  "mouse_interaction opts m n =
     (if active m
      then (let dx = mouse_x m - node_x n;
                dy = mouse_y m - node_y n;
                distance = sqrt (dx * dx + dy * dy);
                maxDistance = connectionDistance opts * 1.5
            in if distance < maxDistance
               then (let influence = (1 - distance / maxDistance) * 0.05;
                         repelFactor = - 1;
                         n1 = n\<lparr> vx := vx n + dx * influence * repelFactor \<rparr>;
                         n2 = n1\<lparr> vy := vy n1 + dy * influence * repelFactor \<rparr>;
                         maxVelocity = speed opts * 2;
                         velocityMagnitude = sqrt (vx n2 * vx n2 + vy n2 * vy n2)
                     in if velocityMagnitude > maxVelocity
                        then (let scale = maxVelocity / velocityMagnitude in
                              n2\<lparr> vx := vx n2 * scale, vy := vy n2 * scale \<rparr>)
                        else n2)
               else n)
      else n)"

definition update_node :: "network \<Rightarrow> node \<Rightarrow> node" where
  "update_node s n =
     mouse_interaction (options s) (mouse s)
       (pulse (options s) (time s) (reflect_y (height s) (reflect_x (width s) (integrate n))))"

definition updateNodes :: "network \<Rightarrow> network" where
  "updateNodes s = s\<lparr> nodes := map (update_node s) (nodes s) \<rparr>"

subsection \<open>Connections\<close>

type_synonym segment = "real \<times> real \<times> real \<times> real"

definition node_distance :: "node \<Rightarrow> node \<Rightarrow> real" where
  "node_distance a b =
     (let dx = node_x a - node_x b; dy = node_y a - node_y b in sqrt (dx * dx + dy * dy))"

definition mouse_distance :: "mouse_state \<Rightarrow> node \<Rightarrow> real" where
  "mouse_distance m a =
     (let dx = mouse_x m - node_x a; dy = mouse_y m - node_y a in sqrt (dx * dx + dy * dy))"

text \<open>The inner loop of \<^verbatim>\<open>prepareConnectionData\<close>: node \<open>a\<close> against the nodes after it.\<close>

primrec pair_segments :: "real \<Rightarrow> node \<Rightarrow> node list \<Rightarrow> segment list" where
  "pair_segments cd a [] = []"
| "pair_segments cd a (b # bs) =
     (if node_distance a b < cd then [(node_x a, node_y a, node_x b, node_y b)] else [])
     @ pair_segments cd a bs"

definition mouse_segment :: "real \<Rightarrow> mouse_state \<Rightarrow> node \<Rightarrow> segment list" where
  "mouse_segment cd m a =
     (if active m
      then (if mouse_distance m a < cd * 1.5 then [(node_x a, node_y a, mouse_x m, mouse_y m)] else [])
      else [])"

text \<open>The outer loop: the array is not changed while it runs, so it is a recursion on the rest.\<close>

primrec connection_segments :: "real \<Rightarrow> mouse_state \<Rightarrow> node list \<Rightarrow> segment list" where
  "connection_segments cd m [] = []"
| "connection_segments cd m (a # as) =
     pair_segments cd a as @ mouse_segment cd m a @ connection_segments cd m as"

text \<open>The array \<^verbatim>\<open>connections\<close>: four numbers pushed per segment.\<close>

definition connections :: "network \<Rightarrow> real list" where
  "connections s =
     concat (map (\<lambda>(x1, y1, x2, y2). [x1, y1, x2, y2])
       (connection_segments (connectionDistance (options s)) (mouse s) (nodes s)))"

definition connectionData_count :: "network \<Rightarrow> nat" where
  "connectionData_count s = length (connections s) div 2"

definition prepareConnectionData :: "network \<Rightarrow> network outcome" where
  "prepareConnectionData s = gl_do [BufferData (connectionPositionBuffer s) (connections s)] s"

definition nodeData_count :: "network \<Rightarrow> nat" where
  "nodeData_count s = length (nodes s)"

definition prepareNodeData :: "network \<Rightarrow> network outcome" where
  "prepareNodeData s =
     gl_do [BufferData (nodePositionBuffer s) (concat (map (\<lambda>n. [node_x n, node_y n]) (nodes s))),
            BufferData (nodeSizeBuffer s) (map node_size (nodes s))] s"

subsection \<open>Rendering and the frame callbacks\<close>

definition renderNodes :: "env \<Rightarrow> nat \<Rightarrow> network \<Rightarrow> network outcome" where
  "renderNodes e count s =
     and_then (gl_do [UseProgram (nodeProgram s)] s)
       (\<lambda>s1. if nodeProgram s1 = None then Threw TypeError s1
             else gl_do [DrawArrays POINTS count]
                    (if aliased_point_size_max e < 1
                     then console_log Warn ''WebGL implementation does not support point sizes > 1.0'' s1
                     else s1))"

definition renderConnections :: "nat \<Rightarrow> network \<Rightarrow> network outcome" where
  "renderConnections count s =
     and_then (gl_do [UseProgram (connectionProgram s)] s)
       (\<lambda>s1. if connectionProgram s1 = None then Threw TypeError s1
             else gl_do [DrawArrays LINES count] s1)"

definition clear :: "network \<Rightarrow> network outcome" where
  "clear s =
     (if theme (options s) = ''dark''
      then gl_do [ClearColor 0.05 0.05 0.1 1.0, Clear] s
      else gl_do [ClearColor 1.0 1.0 1.0 0.0, Clear] s)"

text \<open>\<^verbatim>\<open>animate\<close>; \<open>now\<close> is what \<^verbatim>\<open>performance.now()\<close> returns in this frame.\<close>

definition animate :: "env \<Rightarrow> real \<Rightarrow> network \<Rightarrow> network outcome" where
  "animate e now s =
     (let s1 = s\<lparr> frame_queue := frame_queue s @ [animate_method s] \<rparr> in
      if \<not> isVisible s1 \<or> \<not> shouldRender s1 then Returned s1
      else
        let s2 = updateNodes (s1\<lparr> time := now \<rparr>) in
        and_then (prepareNodeData s2)
          (\<lambda>s3. and_then (prepareConnectionData s3)
            (\<lambda>s4. and_then (clear s4)
              (\<lambda>s5. and_then (renderConnections (connectionData_count s3) s5)
                (renderNodes e (nodeData_count s2))))))"

primrec canvas_pairs :: "options \<Rightarrow> node \<Rightarrow> node list \<Rightarrow> ctx_command list" where
  "canvas_pairs opts a [] = []"
| "canvas_pairs opts a (b # bs) =
     (if node_distance a b < connectionDistance opts
      then (let opacity = 1 - node_distance a b / connectionDistance opts in
            [Stroke (node_x a) (node_y a) (node_x b) (node_y b) (opacity * (connectionColor opts ! 3))])
      else [])
     @ canvas_pairs opts a bs"

definition canvas_mouse :: "options \<Rightarrow> mouse_state \<Rightarrow> node \<Rightarrow> ctx_command list" where
  "canvas_mouse opts m a =
     (if active m
      then (if mouse_distance m a < connectionDistance opts * 1.5
            then (let opacity = 1 - mouse_distance m a / (connectionDistance opts * 1.5) in
                  [Stroke (node_x a) (node_y a) (mouse_x m) (mouse_y m)
                     (opacity * (connectionColor opts ! 3) * 1.5)])
            else [])
      else [])"

primrec canvas_connections :: "options \<Rightarrow> mouse_state \<Rightarrow> node list \<Rightarrow> ctx_command list" where
  "canvas_connections opts m [] = []"
| "canvas_connections opts m (a # as) =
     canvas_pairs opts a as @ canvas_mouse opts m a @ canvas_connections opts m as"

definition canvas_nodes :: "node list \<Rightarrow> ctx_command list" where
  "canvas_nodes ns =
     concat (map (\<lambda>n. [FillGlow (node_x n) (node_y n) (node_size n * 2),
                        FillNode (node_x n) (node_y n) (node_size n)]) ns)"

definition animateCanvas :: "env \<Rightarrow> real \<Rightarrow> network \<Rightarrow> network outcome" where
  "animateCanvas e now s =
     (let s1 = s\<lparr> frame_queue := frame_queue s @ [AnimateCanvas] \<rparr> in
      if \<not> isVisible s1 \<or> \<not> shouldRender s1 then Returned s1
      else
        let s2 = updateNodes (s1\<lparr> time := now \<rparr>) in
        case ctx s2 of
          None \<Rightarrow> Threw TypeError s2
        | Some painted \<Rightarrow>
            Returned (s2\<lparr> ctx := Some (painted
              @ [FillRect (if theme (options s2) = ''dark'' then ''rgba(13, 13, 25, 1)''
                           else ''rgba(255, 255, 255, 0)'') (width s2) (height s2)]
              @ canvas_connections (options s2) (mouse s2) (nodes s2)
              @ canvas_nodes (nodes s2)) \<rparr>))"

definition run_frame_callback :: "env \<Rightarrow> real \<Rightarrow> frame_callback \<Rightarrow> network \<Rightarrow> network outcome" where
  "run_frame_callback e now cb s =
     (case cb of AnimateGL \<Rightarrow> animate e now s | AnimateCanvas \<Rightarrow> animateCanvas e now s)"

subsection \<open>Runtime surface: updateOptions and destroy\<close>

definition updateOptions :: "env \<Rightarrow> options_patch \<Rightarrow> network \<Rightarrow> network" where
  "updateOptions e newOptions s =
     (let s1 = s\<lparr> options := spread (options s) newOptions \<rparr> in
      if new_nodeCount newOptions \<noteq> None then createNodes e s1 else s1)"

text \<open>\<^verbatim>\<open>destroy\<close>, by the blocks of its body.\<close>

definition remove_listeners :: "network \<Rightarrow> network" where
  "remove_listeners s =
     (let s1 = removeEventListener Window ''resize'' s in
      if interactive (options s1)
      then foldl (\<lambda>st ty. removeEventListener Container ty st) s1
             [''mousemove'', ''mouseleave'', ''mouseenter'', ''touchmove'', ''touchstart'', ''touchend'']
      else s1)"

definition stop_observing :: "network \<Rightarrow> network" where
  "stop_observing s =
     (case visibilityObserver s of
        None \<Rightarrow> s
      | Some observing \<Rightarrow> s\<lparr> visibilityObserver := Some False \<rparr>)"

definition remove_canvas :: "network \<Rightarrow> network" where
  "remove_canvas s =
     (case canvas s of
        None \<Rightarrow> s
      | Some c \<Rightarrow> if in_dom c then s\<lparr> canvas := Some (c\<lparr> in_dom := False \<rparr>) \<rparr> else s)"

definition delete_resources :: "network \<Rightarrow> network" where
  "delete_resources s =
     (case gl s of
        None \<Rightarrow> s
      | Some g \<Rightarrow>
          s\<lparr> gl := Some (deleteProgram (connectionProgram s)
                         (deleteProgram (nodeProgram s)
                           (deleteBuffer (connectionPositionBuffer s)
                             (deleteBuffer (nodeSizeBuffer s)
                               (deleteBuffer (nodePositionBuffer s) g))))) \<rparr>)"

definition destroy :: "network \<Rightarrow> network" where
  "destroy s =
     delete_resources (remove_canvas (stop_observing (remove_listeners (s\<lparr> shouldRender := False \<rparr>))))"

subsection \<open>Construction\<close>

datatype container_arg = Selector string | Element elem | NoElement

definition resolve_container :: "env \<Rightarrow> container_arg \<Rightarrow> elem option" where
  "resolve_container e arg =
     (case arg of Selector sel \<Rightarrow> querySelector e sel | Element el \<Rightarrow> Some el | NoElement \<Rightarrow> None)"

text \<open>
  What \<^verbatim>\<open>new WebGLNeuralNetwork(container, options)\<close> gives its caller: an object left
  without any state by the early return (only the console has changed), a constructed
  instance, or an exception, with the state \<^verbatim>\<open>this\<close> had when it was thrown.
\<close>

datatype construction =
    NoContainer "(level \<times> string) list"
  | Constructed network
  | Aborted js_error network

definition initial_network :: "env \<Rightarrow> elem \<Rightarrow> options_patch \<Rightarrow> network" where
  "initial_network e c opts = \<lparr>
     container = c,
     options = spread default_options opts,
     width = 0, height = 0,
     dpr = (if devicePixelRatio e = 0 then 1 else devicePixelRatio e),
     time = 0,
     nodes = [],
     mouse = \<lparr> mouse_x = 0, mouse_y = 0, active = False \<rparr>,
     isVisible = True, shouldRender = True,
     performanceLevel = High,
     canvas = None, gl = None, ctx = None, animate_method = AnimateGL,
     nodeProgram = None, connectionProgram = None,
     nodePositionBuffer = None, nodeSizeBuffer = None, connectionPositionBuffer = None,
     visibilityObserver = None,
     listeners = [], next_function = 0, frame_queue = [], console = [],
     random_calls = 0, uncaught = [] \<rparr>"

definition construct :: "env \<Rightarrow> container_arg \<Rightarrow> options_patch \<Rightarrow> construction" where
  "construct e arg opts =
     (case resolve_container e arg of
        None \<Rightarrow> NoContainer [(Warn, ''WebGL neural network container not found'')]
      | Some c \<Rightarrow>
          (case and_then (initWebGL e (initial_network e c opts))
                  (\<lambda>s1. and_then (if adaptivePerformance (options s1) then checkPerformance e s1
                                   else Returned s1)
                    (\<lambda>s2. and_then (resize e (initial_rect e) (setupEventListeners e (createNodes e s2)))
                      (\<lambda>s3. run_frame_callback e (initial_now e) (animate_method s3) s3))) of
             Returned s \<Rightarrow> Constructed s
           | Threw err s \<Rightarrow> Aborted err s))"

text \<open>
  \<^verbatim>\<open>destroy\<close> called on what the constructor left. On the object of the early return
  \<^verbatim>\<open>this.options\<close> is undefined and \<^verbatim>\<open>this.options.interactive\<close> throws; on an
  instance no statement of \<^verbatim>\<open>destroy\<close> can throw.
\<close>

definition destroy_object :: "construction \<Rightarrow> construction outcome" where
  "destroy_object obj =
     (case obj of
        NoContainer l \<Rightarrow> Threw TypeError (NoContainer l)
      | Constructed s \<Rightarrow> Returned (Constructed (destroy s))
      | Aborted err s \<Rightarrow> Returned (Aborted err (destroy s)))"

subsection \<open>The session: what happens to an instance after construction\<close>

datatype event =
    AnimationFrame real
  | WindowResize real real
  | MouseMove real real
  | MouseLeave
  | MouseEnter
  | TouchMove "(real \<times> real) list"
  | TouchStart "(real \<times> real) list"
  | TouchEnd
  | IntersectionChange bool
  | VisibilityChange bool
  | UpdateOptions options_patch
  | Destroy

fun dom_event :: "event \<Rightarrow> (target \<times> string) option" where
  "dom_event (WindowResize w h) = Some (Window, ''resize'')"
| "dom_event (MouseMove cx cy) = Some (Container, ''mousemove'')"
| "dom_event MouseLeave = Some (Container, ''mouseleave'')"
| "dom_event MouseEnter = Some (Container, ''mouseenter'')"
| "dom_event (TouchMove ts) = Some (Container, ''touchmove'')"
| "dom_event (TouchStart ts) = Some (Container, ''touchstart'')"
| "dom_event TouchEnd = Some (Container, ''touchend'')"
| "dom_event (VisibilityChange v) = Some (Document, ''visibilitychange'')"
| "dom_event ev = None"

text \<open>
  A registered function called with an event. \<open>WindowResize w h\<close> carries the
  container's bounding rectangle at that moment, \<open>VisibilityChange v\<close> whether
  \<^verbatim>\<open>document.visibilityState === 'visible'\<close>.
\<close>

definition handle :: "env \<Rightarrow> event \<Rightarrow> handler \<Rightarrow> network \<Rightarrow> network outcome" where
  "handle e ev h s =
     (case h of
        OnResize \<Rightarrow> (case ev of WindowResize rw rh \<Rightarrow> resize e (rw, rh) s | _ \<Rightarrow> Returned s)
      | OnMouseMove \<Rightarrow> (case ev of MouseMove cx cy \<Rightarrow> handleMouseMove e cx cy s | _ \<Rightarrow> Returned s)
      | OnMouseLeave \<Rightarrow> Returned (s\<lparr> mouse := (mouse s)\<lparr> active := False \<rparr> \<rparr>)
      | OnMouseEnter \<Rightarrow> Returned (s\<lparr> mouse := (mouse s)\<lparr> active := True \<rparr> \<rparr>)
      | OnTouchMove \<Rightarrow>
          (case ev of TouchMove ts \<Rightarrow> handleTouchMove e ts s
                    | TouchStart ts \<Rightarrow> handleTouchMove e ts s
                    | _ \<Rightarrow> Returned s)
      | OnTouchEnd \<Rightarrow> Returned (s\<lparr> mouse := (mouse s)\<lparr> active := False \<rparr> \<rparr>)
      | OnVisibilityChange \<Rightarrow>
          (case ev of VisibilityChange v \<Rightarrow> Returned (s\<lparr> shouldRender := v \<rparr>) | _ \<Rightarrow> Returned s))"

text \<open>An exception that leaves a callback is reported by the browser; the state stays.\<close>

definition settle :: "network outcome \<Rightarrow> network" where
  "settle r = (case r of Returned s \<Rightarrow> s | Threw err s \<Rightarrow> s\<lparr> uncaught := uncaught s @ [err] \<rparr>)"

definition dispatch :: "env \<Rightarrow> event \<Rightarrow> network \<Rightarrow> network" where
  "dispatch e ev s =
     (case dom_event ev of
        None \<Rightarrow> s
      | Some (tg, ty) \<Rightarrow>
          foldl (\<lambda>st (tg', ty', f, h). if tg' = tg \<and> ty' = ty then settle (handle e ev h st) else st)
            s (listeners s))"

definition step :: "env \<Rightarrow> event \<Rightarrow> network \<Rightarrow> network" where
  "step e ev s =
     (case ev of
        AnimationFrame now \<Rightarrow>
          foldl (\<lambda>st cb. settle (run_frame_callback e now cb st)) (s\<lparr> frame_queue := [] \<rparr>) (frame_queue s)
      | IntersectionChange b \<Rightarrow> (if visibilityObserver s = Some True then s\<lparr> isVisible := b \<rparr> else s)
      | UpdateOptions p \<Rightarrow> updateOptions e p s
      | Destroy \<Rightarrow> destroy s
      | _ \<Rightarrow> dispatch e ev s)"

definition run :: "env \<Rightarrow> event list \<Rightarrow> network \<Rightarrow> network" where
  "run e evs s = foldl (\<lambda>st ev. step e ev st) s evs"

section \<open>Properties: what the claims are stated with\<close>








text \<open>
  The listener table of an instance is well formed when every registered function
  object is one of those created so far.
\<close>

definition fresh_ok :: "network \<Rightarrow> bool" where
  "fresh_ok s = list_all (\<lambda>(tg, ty, f, h). f < next_function s) (listeners s)"

text \<open>The delete calls of \<^verbatim>\<open>destroy\<close>, and their effect on a context.\<close>

definition released :: "network \<Rightarrow> gl_command list" where
  "released s = [DeleteBuffer (nodePositionBuffer s), DeleteBuffer (nodeSizeBuffer s),
     DeleteBuffer (connectionPositionBuffer s), DeleteProgram (nodeProgram s),
     DeleteProgram (connectionProgram s)]"

definition delete_all :: "network \<Rightarrow> gl_context \<Rightarrow> gl_context" where
  "delete_all s g = g\<lparr>
     live_buffers := filter (\<lambda>h. Some h \<noteq> nodePositionBuffer s \<and> Some h \<noteq> nodeSizeBuffer s
                                 \<and> Some h \<noteq> connectionPositionBuffer s) (live_buffers g),
     live_programs := filter (\<lambda>h. Some h \<noteq> nodeProgram s \<and> Some h \<noteq> connectionProgram s) (live_programs g),
     gl_calls := gl_calls g @ released s \<rparr>"



text \<open>
  The tier in the specification's words: the device heuristics pick it, a benchmark that
  took more than 10 ms lowers it by one step, and without adaptive performance it is high.
\<close>

definition heuristic_tier :: "env \<Rightarrow> tier" where
  "heuristic_tier e = (if isLowEndDevice e then Low else if isMidRangeDevice e then Medium else High)"

fun downgrade :: "tier \<Rightarrow> tier" where
  "downgrade High = Medium"
| "downgrade Medium = Low"
| "downgrade Low = Low"

definition startup_tier :: "env \<Rightarrow> options_patch \<Rightarrow> tier" where
  "startup_tier e opts =
     (if adaptivePerformance (spread default_options opts)
      then (if benchmark_ms e > 10 then downgrade (heuristic_tier e) else heuristic_tier e)
      else High)"





text \<open>The listener table and the count of function objects created.\<close>

definition registry :: "network \<Rightarrow> listener list \<times> nat" where
  "registry s = (listeners s, next_function s)"

text \<open>
  A desktop browser: eight cores, WebGL, a 1920 x 1080 container found by
  \<^verbatim>\<open>#hero\<close>, a fast benchmark, and \<^verbatim>\<open>Math.random()\<close> always 1/4. With
  default options the constructor leaves the instance \<open>desktop_started\<close>: it has no
  nodes, since \<^verbatim>\<open>createNodes\<close> runs while width and height are still 0.
\<close>

definition desktop :: env where
  "desktop = \<lparr> querySelector = (\<lambda>sel. if sel = ''#hero'' then Some 1 else None),
     devicePixelRatio = 2, webgl_context = True,
     compile_status = (\<lambda>src. True), link_status = (\<lambda>v f. True),
     aliased_point_size_max = 64,
     hardwareConcurrency = Some 8, userAgent = ''X11; Linux x86_64'',
     max_width_768 = False, max_width_1024 = False, benchmark_ms = 3,
     math_random = (\<lambda>k. 1 / 4), has_IntersectionObserver = True,
     initial_rect = (1920, 1080), initial_now = 0, canvas_left = 0, canvas_top = 0 \<rparr>"

definition desktop_started :: network where
  "desktop_started = \<lparr>
     container = 1,
     options = default_options,
     width = 1920, height = 1080, dpr = 2, time = 0, nodes = [],
     mouse = \<lparr> mouse_x = 0, mouse_y = 0, active = False \<rparr>,
     isVisible = True, shouldRender = True, performanceLevel = High,
     canvas = Some \<lparr> c_width = 3840, c_height = 2160, style_width = Some 1920, style_height = Some 1080,
                     in_dom = True \<rparr>,
     gl = Some \<lparr> live_buffers = [7, 8, 9], live_programs = [3, 6], next_handle = 10,
                 gl_calls = [BufferData (Some 7) (benchmark_positions (\<lambda>k. 1 / 4) 0 0 1000 0),
                             BufferData (Some 8) (replicate 1000 3),
                             UseProgram (Some 3), DrawArrays POINTS 1000, Finish,
                             Viewport 3840 2160,
                             BufferData (Some 7) [], BufferData (Some 8) [], BufferData (Some 9) [],
                             ClearColor 1 1 1 0, Clear,
                             UseProgram (Some 6), DrawArrays LINES 0,
                             UseProgram (Some 3), DrawArrays POINTS 0] \<rparr>,
     ctx = None, animate_method = AnimateGL,
     nodeProgram = Some 3, connectionProgram = Some 6,
     nodePositionBuffer = Some 7, nodeSizeBuffer = Some 8, connectionPositionBuffer = Some 9,
     visibilityObserver = Some True,
     listeners = [(Window, ''resize'', 0, OnResize),
                  (Container, ''mousemove'', 1, OnMouseMove),
                  (Container, ''mouseleave'', 2, OnMouseLeave),
                  (Container, ''mouseenter'', 3, OnMouseEnter),
                  (Container, ''touchmove'', 4, OnTouchMove),
                  (Container, ''touchstart'', 5, OnTouchMove),
                  (Container, ''touchend'', 6, OnTouchEnd),
                  (Document, ''visibilitychange'', 7, OnVisibilityChange)],
     next_function = 8, frame_queue = [AnimateGL], console = [],
     random_calls = 2000, uncaught = [] \<rparr>"

text \<open>The same browser with a node fragment shader that does not compile.\<close>

definition broken_shader :: env where
  "broken_shader = desktop\<lparr> compile_status := (\<lambda>src. src \<noteq> NodeFragment) \<rparr>"

text \<open>The draw calls an instance has issued.\<close>

fun is_draw :: "gl_command \<Rightarrow> bool" where
  "is_draw (DrawArrays m n) = True"
| "is_draw c = False"

definition draws :: "network \<Rightarrow> gl_command list" where
  "draws s = (case gl s of None \<Rightarrow> [] | Some g \<Rightarrow> filter is_draw (gl_calls g))"

text \<open>
  The desktop instance after \<^verbatim>\<open>updateOptions({nodeCount: 2})\<close>: two nodes, both at
  (480, 270), since every random number is 1/4.
\<close>

definition seed_node :: node where
  "seed_node = \<lparr> node_x = 480, node_y = 270, vx = - 1 / 8, vy = - 1 / 8, node_size = 17 / 8,
                   originalSize = 17 / 8, pulseOffset = pi / 2 \<rparr>"

definition desktop_seeded :: network where
  "desktop_seeded = desktop_started\<lparr> options := default_options\<lparr> nodeCount := 2 \<rparr>,
                                     nodes := [seed_node, seed_node], random_calls := 2014 \<rparr>"






text \<open>A node at rest, and a pointer 90 away from it (54 right, 72 down).\<close>

definition still_node :: node where
  "still_node = \<lparr> node_x = 480, node_y = 270, vx = 0, vy = 0, node_size = 2, originalSize = 3,
                    pulseOffset = 0 \<rparr>"

definition pointer_state :: network where
  "pointer_state = desktop_started\<lparr> mouse := \<lparr> mouse_x = 534, mouse_y = 342, active = True \<rparr>,
                                    nodes := [still_node] \<rparr>"

text \<open>A phone: four cores, a mobile user agent, a narrow viewport.\<close>

definition phone :: env where
  "phone = desktop\<lparr> hardwareConcurrency := Some 4, userAgent := ''iPhone; CPU iPhone OS 17_0'',
                     max_width_768 := True, max_width_1024 := True, initial_rect := (390, 300) \<rparr>"

definition phone_started :: network where
  "phone_started = desktop_started\<lparr>
     options := default_options\<lparr> nodeCount := 45, connectionDistance := 84, speed := 7 / 20,
                                  dataFlowEffect := False \<rparr>,
     width := 390, height := 300, performanceLevel := Low,
     canvas := Some \<lparr> c_width = 780, c_height = 600, style_width = Some 390, style_height = Some 300,
                      in_dom = True \<rparr>,
     gl := Some \<lparr> live_buffers = [7, 8, 9], live_programs = [3, 6], next_handle = 10,
                  gl_calls = [BufferData (Some 7) (benchmark_positions (\<lambda>k. 1 / 4) 0 0 1000 0),
                              BufferData (Some 8) (replicate 1000 3),
                              UseProgram (Some 3), DrawArrays POINTS 1000, Finish,
                              Viewport 780 600,
                              BufferData (Some 7) [], BufferData (Some 8) [], BufferData (Some 9) [],
                              ClearColor 1 1 1 0, Clear,
                              UseProgram (Some 6), DrawArrays LINES 0,
                              UseProgram (Some 3), DrawArrays POINTS 0] \<rparr> \<rparr>"



section \<open>Lemmas\<close>

subsection \<open>One tick keeps the nodes inside\<close>



lemma reflect_x_keeps_y: "node_y (reflect_x w n) = node_y n"
  by (simp add: reflect_x_def)








subsection \<open>The pointer step and the speed limit\<close>

lemma scaled_magnitude:
  fixes a b l :: real
  assumes "0 \<le> l" "l < sqrt (a * a + b * b)"
  shows "sqrt ((a * (l / sqrt (a * a + b * b))) * (a * (l / sqrt (a * a + b * b)))
             + (b * (l / sqrt (a * a + b * b))) * (b * (l / sqrt (a * a + b * b)))) = l"
proof -
  define m where "m = sqrt (a * a + b * b)"
  have m: "0 < m" unfolding m_def using assms by linarith
  have nonneg: "0 \<le> a * a + b * b" by simp
  have sq: "m * m = a * a + b * b"
    unfolding m_def using nonneg by (rule real_sqrt_mult_self [unfolded abs_of_nonneg] | simp)+
  have "(a * (l / m)) * (a * (l / m)) + (b * (l / m)) * (b * (l / m))
        = (l / m) * (l / m) * (a * a + b * b)"
    by (simp only: algebra_simps)
  also have "\<dots> = (l / m) * (l / m) * (m * m)" by (simp only: sq)
  also have "\<dots> = l * l" using m by simp
  finally have "sqrt ((a * (l / m)) * (a * (l / m)) + (b * (l / m)) * (b * (l / m))) = sqrt (l * l)"
    by simp
  then show ?thesis using assms(1) by (simp add: m_def)
qed

lemma mouse_interaction_speed_limit:
  assumes "0 \<le> speed opts" "active m" "mouse_distance m n < connectionDistance opts * 1.5"
  shows "sqrt (vx (mouse_interaction opts m n) * vx (mouse_interaction opts m n)
             + vy (mouse_interaction opts m n) * vy (mouse_interaction opts m n)) \<le> speed opts * 2"
proof -
  define a where "a = vx n + (mouse_x m - node_x n)
      * ((1 - mouse_distance m n / (connectionDistance opts * 1.5)) * 0.05) * - 1"
  define b where "b = vy n + (mouse_y m - node_y n)
      * ((1 - mouse_distance m n / (connectionDistance opts * 1.5)) * 0.05) * - 1"
  define l where "l = speed opts * 2"
  have l: "0 \<le> l" using assms(1) by (simp add: l_def)
  have vx_eq: "vx (mouse_interaction opts m n) = (if sqrt (a * a + b * b) > l then a * (l / sqrt (a * a + b * b)) else a)"
    using assms(2,3) by (simp add: mouse_interaction_def mouse_distance_def Let_def a_def b_def l_def)
  have vy_eq: "vy (mouse_interaction opts m n) = (if sqrt (a * a + b * b) > l then b * (l / sqrt (a * a + b * b)) else b)"
    using assms(2,3) by (simp add: mouse_interaction_def mouse_distance_def Let_def a_def b_def l_def)
  show ?thesis
  proof (cases "sqrt (a * a + b * b) > l")
    case True
    then show ?thesis using scaled_magnitude[OF l True] by (simp only: vx_eq vy_eq if_True l_def[symmetric])
  next
    case False
    then show ?thesis by (simp add: vx_eq vy_eq l_def[symmetric])
  qed
qed

lemma before_pointer_fields:
  fixes s n
  defines "b \<equiv> pulse (options s) (time s) (reflect_y (height s) (reflect_x (width s) (integrate n)))"
  shows "node_x b = (if node_x n + vx n < 0 \<or> node_x n + vx n > width s
                     then max 0 (min (width s) (node_x n + vx n)) else node_x n + vx n)"
    and "node_y b = (if node_y n + vy n < 0 \<or> node_y n + vy n > height s
                     then max 0 (min (height s) (node_y n + vy n)) else node_y n + vy n)"
    and "vx b = (if node_x n + vx n < 0 \<or> node_x n + vx n > width s then - vx n else vx n)"
    and "vy b = (if node_y n + vy n < 0 \<or> node_y n + vy n > height s then - vy n else vy n)"
    and "node_size b = (if pulseEffect (options s)
                        then originalSize n * (1 + 0.2 * sin (time s * 0.002 + pulseOffset n))
                        else node_size n)"
    and "originalSize b = originalSize n"
    and "pulseOffset b = pulseOffset n"
  by (simp_all add: b_def pulse_def reflect_y_def reflect_x_def integrate_def Let_def)

lemma mouse_interaction_fields:
  "node_x (mouse_interaction opts m b) = node_x b"
  "node_y (mouse_interaction opts m b) = node_y b"
  "node_size (mouse_interaction opts m b) = node_size b"
  "originalSize (mouse_interaction opts m b) = originalSize b"
  "pulseOffset (mouse_interaction opts m b) = pulseOffset b"
  by (simp_all add: mouse_interaction_def Let_def)

lemma mouse_interaction_velocity:
  "vx (mouse_interaction opts m b) =
     (let dx = mouse_x m - node_x b; dy = mouse_y m - node_y b;
          d = sqrt (dx * dx + dy * dy);
          maxDistance = connectionDistance opts * 1.5;
          near = (active m \<and> d < maxDistance);
          k = (1 - d / maxDistance) * 0.05 * - 1;
          vx3 = (if near then vx b + dx * k else vx b);
          vy3 = (if near then vy b + dy * k else vy b);
          magnitude = sqrt (vx3 * vx3 + vy3 * vy3);
          limit = speed opts * 2
      in if near \<and> magnitude > limit then vx3 * (limit / magnitude) else vx3)"
  "vy (mouse_interaction opts m b) =
     (let dx = mouse_x m - node_x b; dy = mouse_y m - node_y b;
          d = sqrt (dx * dx + dy * dy);
          maxDistance = connectionDistance opts * 1.5;
          near = (active m \<and> d < maxDistance);
          k = (1 - d / maxDistance) * 0.05 * - 1;
          vx3 = (if near then vx b + dx * k else vx b);
          vy3 = (if near then vy b + dy * k else vy b);
          magnitude = sqrt (vx3 * vx3 + vy3 * vy3);
          limit = speed opts * 2
      in if near \<and> magnitude > limit then vy3 * (limit / magnitude) else vy3)"
  by (simp_all add: mouse_interaction_def Let_def)

subsection \<open>The connection set\<close>










lemma length_flat_segments:
  "length (concat (map (\<lambda>(x1, y1, x2, y2). [x1, y1, x2, y2]) (segs :: segment list))) = 4 * length segs"
  by (induction segs) auto

lemma length_connections:
  "length (connections s) = 4 * length (connection_segments (connectionDistance (options s)) (mouse s) (nodes s))"
  by (simp add: connections_def length_flat_segments)

subsection \<open>Disposal\<close>

lemma removeEventListener_fresh:
  assumes "fresh_ok s"
  shows "removeEventListener tg ty s = s\<lparr> next_function := Suc (next_function s) \<rparr>"
proof -
  have "filter (\<lambda>(tg', ty', f', h). \<not> (tg' = tg \<and> ty' = ty \<and> f' = next_function s)) (listeners s) = listeners s"
    using assms unfolding fresh_ok_def list_all_iff by (intro filter_True) auto
  then show ?thesis by (simp add: removeEventListener_def new_function_def)
qed

lemma fresh_ok_next: "fresh_ok s \<Longrightarrow> fresh_ok (s\<lparr> next_function := next_function s + k \<rparr>)"
  unfolding fresh_ok_def list_all_iff by auto

lemma remove_fold_fresh:
  "fresh_ok s \<Longrightarrow> foldl (\<lambda>st ty. removeEventListener tg ty st) s tys
     = s\<lparr> next_function := next_function s + length tys \<rparr>"
proof (induction tys arbitrary: s)
  case Nil
  then show ?case by simp
next
  case (Cons ty tys)
  have "fresh_ok (s\<lparr> next_function := Suc (next_function s) \<rparr>)"
    using fresh_ok_next[OF Cons.prems, of 1] by simp
  then show ?case using Cons by (simp add: removeEventListener_fresh)
qed

lemma deletes_eq:
  "deleteProgram cp (deleteProgram np (deleteBuffer b3 (deleteBuffer b2 (deleteBuffer b1 g))))
   = g\<lparr> live_buffers := filter (\<lambda>h. Some h \<noteq> b1 \<and> Some h \<noteq> b2 \<and> Some h \<noteq> b3) (live_buffers g),
        live_programs := filter (\<lambda>h. Some h \<noteq> np \<and> Some h \<noteq> cp) (live_programs g),
        gl_calls := gl_calls g @ [DeleteBuffer b1, DeleteBuffer b2, DeleteBuffer b3,
                                  DeleteProgram np, DeleteProgram cp] \<rparr>"
  by (simp add: deleteProgram_def deleteBuffer_def gl_call_def conj_commute conj_left_commute)

lemma stop_observing_form:
  "stop_observing s = s\<lparr> visibilityObserver := (case visibilityObserver s of None \<Rightarrow> None | Some b \<Rightarrow> Some False) \<rparr>"
  by (simp add: stop_observing_def split: option.splits)

lemma remove_canvas_form:
  "remove_canvas s = s\<lparr> canvas := (case canvas s of None \<Rightarrow> None | Some c \<Rightarrow> Some (c\<lparr> in_dom := False \<rparr>)) \<rparr>"
  by (simp add: remove_canvas_def split: option.splits)

lemma delete_resources_form:
  "delete_resources s = s\<lparr> gl := (case gl s of None \<Rightarrow> None | Some g \<Rightarrow> Some (delete_all s g)) \<rparr>"
  by (simp add: delete_resources_def deletes_eq delete_all_def released_def split: option.splits)

lemma removeEventListener_form:
  "removeEventListener tg ty s = s\<lparr> next_function := Suc (next_function s),
     listeners := filter (\<lambda>(tg', ty', f', h). \<not> (tg' = tg \<and> ty' = ty \<and> f' = next_function s)) (listeners s) \<rparr>"
  by (simp add: removeEventListener_def new_function_def)

lemma remove_fold_keeps:
  assumes "\<And>t n ls. F (t\<lparr> next_function := n, listeners := ls \<rparr>) = F t"
  shows "F (foldl (\<lambda>st ty. removeEventListener tg ty st) s tys) = F s"
proof (induction tys arbitrary: s)
  case Nil
  then show ?case by simp
next
  case (Cons ty tys)
  have "F (foldl (\<lambda>st ty. removeEventListener tg ty st) (removeEventListener tg ty s) tys)
      = F (removeEventListener tg ty s)" by (rule Cons.IH)
  also have "\<dots> = F s" unfolding removeEventListener_form by (rule assms)
  finally show ?case by simp
qed

lemma remove_listeners_keeps:
  assumes "\<And>t n ls. F (t\<lparr> next_function := n, listeners := ls \<rparr>) = F t"
  shows "F (remove_listeners s) = F s"
proof -
  have 1: "F (removeEventListener Window ''resize'' s) = F s"
    unfolding removeEventListener_form by (rule assms)
  have 2: "interactive (options (removeEventListener Window ''resize'' s)) = interactive (options s)"
    by (simp add: removeEventListener_form)
  show ?thesis
    unfolding remove_listeners_def Let_def 2
    using remove_fold_keeps[of F, OF assms] 1 by (simp del: foldl.simps)
qed

lemma destroy_keeps:
  assumes "\<And>t n ls. F (t\<lparr> next_function := n, listeners := ls \<rparr>) = F t"
    and "\<And>t b. F (t\<lparr> shouldRender := b \<rparr>) = F t"
    and "\<And>t v. F (t\<lparr> visibilityObserver := v \<rparr>) = F t"
    and "\<And>t c. F (t\<lparr> canvas := c \<rparr>) = F t"
    and "\<And>t g. F (t\<lparr> gl := g \<rparr>) = F t"
  shows "F (destroy s) = F s"
  unfolding destroy_def delete_resources_form remove_canvas_form stop_observing_form
  by (simp only: assms remove_listeners_keeps[of F, OF assms(1)])

lemma remove_listeners_fresh:
  assumes "fresh_ok s"
  shows "remove_listeners s = s\<lparr> next_function := next_function s + (if interactive (options s) then 7 else 1) \<rparr>"
proof -
  have f2: "fresh_ok (s\<lparr> next_function := Suc (next_function s) \<rparr>)"
    using fresh_ok_next[OF assms, of 1] by simp
  show ?thesis
    unfolding remove_listeners_def Let_def removeEventListener_fresh[OF assms]
    by (simp add: remove_fold_fresh[OF f2] del: foldl.simps)
qed

lemma destroy_fresh:
  assumes "fresh_ok s"
  shows "destroy s = s\<lparr>
     shouldRender := False,
     next_function := next_function s + (if interactive (options s) then 7 else 1),
     visibilityObserver := (case visibilityObserver s of None \<Rightarrow> None | Some b \<Rightarrow> Some False),
     canvas := (case canvas s of None \<Rightarrow> None | Some c \<Rightarrow> Some (c\<lparr> in_dom := False \<rparr>)),
     gl := (case gl s of None \<Rightarrow> None | Some g \<Rightarrow> Some (delete_all s g)) \<rparr>"
proof -
  have f1: "fresh_ok (s\<lparr> shouldRender := False \<rparr>)"
    using assms by (simp add: fresh_ok_def)
  show ?thesis
    unfolding destroy_def remove_listeners_fresh[OF f1]
    by (simp add: stop_observing_form remove_canvas_form delete_resources_form delete_all_def released_def
        cong: option.case_cong)
qed

lemma fresh_ok_destroy:
  assumes "fresh_ok s"
  shows "fresh_ok (destroy s)"
proof -
  have "listeners (destroy s) = listeners s"
    "next_function (destroy s) = next_function s + (if interactive (options s) then 7 else 1)"
    by (simp_all add: destroy_fresh[OF assms])
  then show ?thesis using assms unfolding fresh_ok_def list_all_iff by auto
qed

lemma delete_all_twice:
  "delete_all s (delete_all s g) = (delete_all s g)\<lparr> gl_calls := gl_calls (delete_all s g) @ released s \<rparr>"
  by (simp add: delete_all_def)

lemma destroy_twice:
  assumes "fresh_ok s"
  shows "destroy (destroy s) = (destroy s)\<lparr>
     next_function := next_function (destroy s) + (if interactive (options s) then 7 else 1),
     gl := map_option (\<lambda>g. g\<lparr> gl_calls := gl_calls g @ released s \<rparr>) (gl (destroy s)) \<rparr>"
proof -
  define d where "d = destroy s"
  have A: "d = s\<lparr>
     shouldRender := False,
     next_function := next_function s + (if interactive (options s) then 7 else 1),
     visibilityObserver := (case visibilityObserver s of None \<Rightarrow> None | Some b \<Rightarrow> Some False),
     canvas := (case canvas s of None \<Rightarrow> None | Some c \<Rightarrow> Some (c\<lparr> in_dom := False \<rparr>)),
     gl := (case gl s of None \<Rightarrow> None | Some g \<Rightarrow> Some (delete_all s g)) \<rparr>"
    unfolding d_def by (rule destroy_fresh[OF assms])
  have d1: "shouldRender d = False" "interactive (options d) = interactive (options s)"
    by (simp_all add: A)
  have d2: "(case visibilityObserver d of None \<Rightarrow> None | Some b \<Rightarrow> Some False) = visibilityObserver d"
    by (simp add: A split: option.splits)
  have d3: "(case canvas d of None \<Rightarrow> None | Some c \<Rightarrow> Some (c\<lparr> in_dom := False \<rparr>)) = canvas d"
    by (simp add: A split: option.splits)
  have d4: "delete_all d = delete_all s"
    by (simp add: A delete_all_def released_def fun_eq_iff)
  have d5: "(case gl d of None \<Rightarrow> None | Some g \<Rightarrow> Some (delete_all s g))
        = map_option (\<lambda>g. g\<lparr> gl_calls := gl_calls g @ released s \<rparr>) (gl d)"
    by (simp add: A delete_all_twice split: option.splits)
  have B: "destroy d = d\<lparr>
     shouldRender := False,
     next_function := next_function d + (if interactive (options d) then 7 else 1),
     visibilityObserver := (case visibilityObserver d of None \<Rightarrow> None | Some b \<Rightarrow> Some False),
     canvas := (case canvas d of None \<Rightarrow> None | Some c \<Rightarrow> Some (c\<lparr> in_dom := False \<rparr>)),
     gl := (case gl d of None \<Rightarrow> None | Some g \<Rightarrow> Some (delete_all d g)) \<rparr>"
    using fresh_ok_destroy[OF assms] unfolding d_def[symmetric] by (rule destroy_fresh)
  have "destroy d = d\<lparr> next_function := next_function d + (if interactive (options s) then 7 else 1),
     gl := map_option (\<lambda>g. g\<lparr> gl_calls := gl_calls g @ released s \<rparr>) (gl d) \<rparr>"
    unfolding B d4 d5 d2 d3 d1 by (rule network.equality) (simp_all add: d1)
  then show ?thesis unfolding d_def .
qed

subsection \<open>No event changes the tier\<close>

lemma gl_do_cases:
  "gl_do cs s = (case gl s of None \<Rightarrow> Threw TypeError s
      | Some g \<Rightarrow> Returned (s\<lparr> gl := Some (g\<lparr> gl_calls := gl_calls g @ cs \<rparr>) \<rparr>))"
  by (simp add: gl_do_def with_gl_def)

lemmas frame_defs = animate_def animateCanvas_def run_frame_callback_def Let_def and_then_def gl_do_cases
  prepareNodeData_def prepareConnectionData_def clear_def renderConnections_def renderNodes_def
  updateNodes_def console_log_def

lemma frame_callback_level:
  "performanceLevel (state_of (run_frame_callback e now cb s)) = performanceLevel s"
  by (simp add: frame_defs split: option.splits frame_callback.splits)

lemma settle_level: "performanceLevel (settle r) = performanceLevel (state_of r)"
  by (cases r) (simp_all add: settle_def)

lemma frames_level:
  "performanceLevel (foldl (\<lambda>st cb. settle (run_frame_callback e now cb st)) s q) = performanceLevel s"
  by (induction q arbitrary: s) (simp_all add: settle_level frame_callback_level)

lemma resize_level: "performanceLevel (state_of (resize e r s)) = performanceLevel s"
  by (simp add: resize_def Let_def and_then_def gl_do_cases split: option.splits)

lemma handle_level: "performanceLevel (state_of (handle e ev h s)) = performanceLevel s"
  by (simp add: handle_def resize_level handleMouseMove_def handleTouchMove_def
      split: handler.splits event.splits option.splits list.splits prod.splits)

lemma dispatch_fold_level:
  "performanceLevel (foldl (\<lambda>st (tg', ty', f, h). if tg' = tg \<and> ty' = ty then settle (handle e ev h st) else st) s ls)
     = performanceLevel s"
  by (induction ls arbitrary: s) (simp_all add: settle_level handle_level split: prod.splits)

lemma dispatch_level: "performanceLevel (dispatch e ev s) = performanceLevel s"
  by (simp add: dispatch_def dispatch_fold_level split: option.splits prod.splits)

lemma createNodes_level: "performanceLevel (createNodes e s) = performanceLevel s"
  by (simp add: createNodes_def Let_def)

lemma updateOptions_level: "performanceLevel (updateOptions e p s) = performanceLevel s"
  by (simp add: updateOptions_def Let_def createNodes_level)

lemma destroy_level: "performanceLevel (destroy s) = performanceLevel s"
  by (rule destroy_keeps) simp_all

lemma step_level: "performanceLevel (step e ev s) = performanceLevel s"
  by (cases ev) (simp_all add: step_def frames_level dispatch_level updateOptions_level destroy_level)

lemma run_level: "performanceLevel (run e evs s) = performanceLevel s"
  unfolding run_def by (induction evs arbitrary: s) (simp_all add: step_level)

subsection \<open>The nodes stay inside over a session\<close>



lemma createNodes_fields:
  "width (createNodes e s) = width s" "height (createNodes e s) = height s"
  "gl (createNodes e s) = gl s" "canvas (createNodes e s) = canvas s"
  by (simp_all add: createNodes_def Let_def)













subsection \<open>Construction\<close>

lemma and_then_Returned:
  "and_then r f = Returned t \<longleftrightarrow> (\<exists>u. r = Returned u \<and> f u = Returned t)"
  by (cases r) (simp_all add: and_then_def)

lemma construct_Constructed:
  assumes "construct e arg opts = Constructed s"
  obtains c s1 s2 s3 where "resolve_container e arg = Some c"
    "initWebGL e (initial_network e c opts) = Returned s1"
    "(if adaptivePerformance (options s1) then checkPerformance e s1 else Returned s1) = Returned s2"
    "resize e (initial_rect e) (setupEventListeners e (createNodes e s2)) = Returned s3"
    "run_frame_callback e (initial_now e) (animate_method s3) s3 = Returned s"
proof -
  from assms obtain c where c: "resolve_container e arg = Some c"
    by (auto simp: construct_def split: option.splits)
  from assms c have "and_then (initWebGL e (initial_network e c opts))
                  (\<lambda>s1. and_then (if adaptivePerformance (options s1) then checkPerformance e s1
                                   else Returned s1)
                    (\<lambda>s2. and_then (resize e (initial_rect e) (setupEventListeners e (createNodes e s2)))
                      (\<lambda>s3. run_frame_callback e (initial_now e) (animate_method s3) s3))) = Returned s"
    by (auto simp: construct_def split: outcome.splits)
  then show ?thesis using c that unfolding and_then_Returned by blast
qed

lemma createShaderProgram_Returned:
  assumes "createShaderProgram e v f s = Returned (p, t)"
  shows "gl t \<noteq> None \<and> canvas t = canvas s \<and> nodes t = nodes s \<and> width t = width s
     \<and> height t = height s \<and> performanceLevel t = performanceLevel s \<and> options t = options s
     \<and> nodeProgram t = nodeProgram s \<and> connectionProgram t = connectionProgram s
     \<and> ctx t = ctx s \<and> animate_method t = animate_method s \<and> frame_queue t = frame_queue s
     \<and> listeners t = listeners s"
  using assms
  by (auto simp: createShaderProgram_def Let_def gl_alloc_def createProgram_def console_log_def
      split: option.splits if_splits prod.splits)

lemma setupShaders_Returned:
  assumes "setupShaders e s = Returned t"
  shows "gl t \<noteq> None \<and> canvas t = canvas s \<and> nodes t = nodes s \<and> width t = width s
     \<and> height t = height s \<and> performanceLevel t = performanceLevel s \<and> options t = options s
     \<and> nodeProgram t \<noteq> None \<and> connectionProgram t \<noteq> None
     \<and> ctx t = ctx s \<and> animate_method t = animate_method s \<and> frame_queue t = frame_queue s
     \<and> listeners t = listeners s"
proof -
  from assms obtain np s1 where 1: "createShaderProgram e NodeVertex NodeFragment s = Returned (np, s1)"
    by (auto simp: setupShaders_def split: outcome.splits prod.splits)
  with assms obtain cp s2 where
    2: "createShaderProgram e ConnectionVertex ConnectionFragment (s1\<lparr> nodeProgram := np \<rparr>) = Returned (cp, s2)"
    by (auto simp: setupShaders_def split: outcome.splits prod.splits)
  from assms 1 2 have t: "t = s2\<lparr> connectionProgram := cp \<rparr>" "np \<noteq> None" "cp \<noteq> None"
    by (auto simp: setupShaders_def Let_def split: if_splits)
  show ?thesis
    using createShaderProgram_Returned[OF 1] createShaderProgram_Returned[OF 2] t by simp
qed

lemma createBuffers_Returned:
  assumes "createBuffers s = Returned t"
  shows "gl t \<noteq> None \<and> canvas t = canvas s \<and> nodes t = nodes s \<and> width t = width s
     \<and> height t = height s \<and> performanceLevel t = performanceLevel s \<and> options t = options s
     \<and> nodeProgram t = nodeProgram s \<and> connectionProgram t = connectionProgram s
     \<and> ctx t = ctx s \<and> animate_method t = animate_method s \<and> frame_queue t = frame_queue s
     \<and> listeners t = listeners s"
  using assms
  by (auto simp: createBuffers_def Let_def createBuffer_def gl_alloc_def split: option.splits prod.splits)

lemma initWebGL_Returned:
  assumes "initWebGL e s = Returned t" "webgl_context e"
  shows "gl t \<noteq> None \<and> canvas t \<noteq> None \<and> nodes t = nodes s \<and> width t = width s
     \<and> height t = height s \<and> performanceLevel t = performanceLevel s \<and> options t = options s
     \<and> nodeProgram t \<noteq> None \<and> connectionProgram t \<noteq> None
     \<and> ctx t = ctx s \<and> animate_method t = animate_method s \<and> frame_queue t = frame_queue s
     \<and> listeners t = listeners s"
proof -
  from assms obtain u where u: "setupShaders e (s\<lparr> canvas := Some \<lparr> c_width = 300, c_height = 150,
       style_width = None, style_height = None, in_dom = True \<rparr>, gl := Some new_context \<rparr>) = Returned u"
     "createBuffers u = Returned t"
    by (auto simp: initWebGL_def Let_def and_then_Returned)
  show ?thesis using setupShaders_Returned[OF u(1)] createBuffers_Returned[OF u(2)] by simp
qed

lemma fallbackToCanvas_fields:
  "gl (fallbackToCanvas e s) = None"
  "ctx (fallbackToCanvas e s) = Some []"
  "animate_method (fallbackToCanvas e s) = AnimateCanvas"
  "options (fallbackToCanvas e s) =
     (options s)\<lparr> nodeCount := min (nodeCount (options s)) 50,
                   connectionDistance := min (connectionDistance (options s)) 100 \<rparr>"
  "width (fallbackToCanvas e s) = width s"
  "height (fallbackToCanvas e s) = height s"
  "performanceLevel (fallbackToCanvas e s) = performanceLevel s"
  "canvas (fallbackToCanvas e s) = canvas s"
  "frame_queue (fallbackToCanvas e s) = frame_queue s"
  "listeners (fallbackToCanvas e s) = listeners s"
  by (simp_all add: fallbackToCanvas_def Let_def console_log_def createNodes_def)


lemma runWebGLBenchmark_no_gl: "gl s = None \<Longrightarrow> runWebGLBenchmark e s \<noteq> Returned t"
  by (simp add: runWebGLBenchmark_def Let_def gl_do_cases and_then_def)

lemma runWebGLBenchmark_Returned:
  assumes "runWebGLBenchmark e s = Returned t"
  shows "gl t \<noteq> None \<and> canvas t = canvas s \<and> nodes t = nodes s \<and> width t = width s
     \<and> height t = height s
     \<and> performanceLevel t = (if benchmark_ms e > 10 then downgrade (performanceLevel s) else performanceLevel s)
     \<and> nodeProgram t = nodeProgram s \<and> connectionProgram t = connectionProgram s
     \<and> ctx t = ctx s \<and> animate_method t = animate_method s \<and> frame_queue t = frame_queue s
     \<and> listeners t = listeners s"
  using assms
  by (cases "performanceLevel s")
     (auto simp: runWebGLBenchmark_def Let_def gl_do_cases and_then_def split: option.splits if_splits)

lemma checkPerformance_no_gl: "gl s = None \<Longrightarrow> checkPerformance e s \<noteq> Returned t"
  by (simp add: checkPerformance_def runWebGLBenchmark_no_gl)

lemma checkPerformance_Returned:
  assumes "checkPerformance e s = Returned t" "performanceLevel s = High"
  shows "gl t \<noteq> None \<and> canvas t = canvas s \<and> nodes t = nodes s \<and> width t = width s
     \<and> height t = height s
     \<and> performanceLevel t = (if benchmark_ms e > 10 then downgrade (heuristic_tier e) else heuristic_tier e)
     \<and> nodeProgram t = nodeProgram s \<and> connectionProgram t = connectionProgram s
     \<and> ctx t = ctx s \<and> animate_method t = animate_method s \<and> frame_queue t = frame_queue s
     \<and> listeners t = listeners s"
  using assms(2) runWebGLBenchmark_Returned[OF assms(1)[unfolded checkPerformance_def]]
  by (simp add: heuristic_tier_def split: if_splits)

lemma addEventListener_fields:
  "gl (addEventListener tg ty h s) = gl s" "canvas (addEventListener tg ty h s) = canvas s"
  "nodes (addEventListener tg ty h s) = nodes s" "width (addEventListener tg ty h s) = width s"
  "height (addEventListener tg ty h s) = height s"
  "performanceLevel (addEventListener tg ty h s) = performanceLevel s"
  "options (addEventListener tg ty h s) = options s"
  "nodeProgram (addEventListener tg ty h s) = nodeProgram s"
  "connectionProgram (addEventListener tg ty h s) = connectionProgram s"
  "animate_method (addEventListener tg ty h s) = animate_method s"
  "frame_queue (addEventListener tg ty h s) = frame_queue s"
  "ctx (addEventListener tg ty h s) = ctx s"
  by (simp_all add: addEventListener_def new_function_def)

lemma setupEventListeners_fields:
  "gl (setupEventListeners e s) = gl s" "canvas (setupEventListeners e s) = canvas s"
  "nodes (setupEventListeners e s) = nodes s" "width (setupEventListeners e s) = width s"
  "height (setupEventListeners e s) = height s"
  "performanceLevel (setupEventListeners e s) = performanceLevel s"
  "options (setupEventListeners e s) = options s"
  "nodeProgram (setupEventListeners e s) = nodeProgram s"
  "connectionProgram (setupEventListeners e s) = connectionProgram s"
  "animate_method (setupEventListeners e s) = animate_method s"
  "frame_queue (setupEventListeners e s) = frame_queue s"
  "ctx (setupEventListeners e s) = ctx s"
  by (simp_all add: setupEventListeners_def Let_def addEventListener_fields)

lemma createNodes_more_fields:
  "performanceLevel (createNodes e s) = performanceLevel s"
  "options (createNodes e s) = options s"
  "nodeProgram (createNodes e s) = nodeProgram s"
  "connectionProgram (createNodes e s) = connectionProgram s"
  "animate_method (createNodes e s) = animate_method s"
  "frame_queue (createNodes e s) = frame_queue s"
  "ctx (createNodes e s) = ctx s"
  "listeners (createNodes e s) = listeners s"
  by (simp_all add: createNodes_def Let_def)

lemma resize_no_gl: "gl s = None \<Longrightarrow> resize e r s \<noteq> Returned t"
  by (simp add: resize_def Let_def gl_do_cases and_then_def split: option.splits)

lemma constructed_has_webgl:
  assumes "construct e arg opts = Constructed s"
  shows "webgl_context e"
proof (rule ccontr)
  assume no: "\<not> webgl_context e"
  from assms obtain c s1 s2 s3 where ch: "resolve_container e arg = Some c"
    "initWebGL e (initial_network e c opts) = Returned s1"
    "(if adaptivePerformance (options s1) then checkPerformance e s1 else Returned s1) = Returned s2"
    "resize e (initial_rect e) (setupEventListeners e (createNodes e s2)) = Returned s3"
    by (rule construct_Constructed)
  from ch(2) no have "gl s1 = None"
    by (auto simp: initWebGL_def Let_def fallbackToCanvas_fields)
  with ch(3) have "gl s2 = None"
    by (auto simp: checkPerformance_no_gl split: if_splits)
  then have "gl (setupEventListeners e (createNodes e s2)) = None"
    by (simp add: setupEventListeners_fields createNodes_fields)
  with ch(4) show False by (simp add: resize_no_gl)
qed


lemma initial_network_fields:
  "performanceLevel (initial_network e c opts) = High"
  "options (initial_network e c opts) = spread default_options opts"
  "nodes (initial_network e c opts) = []"
  "width (initial_network e c opts) = 0" "height (initial_network e c opts) = 0"
  "frame_queue (initial_network e c opts) = []" "listeners (initial_network e c opts) = []"
  by (simp_all add: initial_network_def)

lemma resize_Returned_level:
  "resize e r s = Returned t \<Longrightarrow> performanceLevel t = performanceLevel s"
  using resize_level[of e r s] by simp

lemma frame_callback_Returned_level:
  "run_frame_callback e now cb s = Returned t \<Longrightarrow> performanceLevel t = performanceLevel s"
  using frame_callback_level[of e now cb s] by simp

lemma constructed_tier:
  assumes "construct e arg opts = Constructed s"
  shows "performanceLevel s = startup_tier e opts"
proof -
  from assms obtain c s1 s2 s3 where ch: "resolve_container e arg = Some c"
    "initWebGL e (initial_network e c opts) = Returned s1"
    "(if adaptivePerformance (options s1) then checkPerformance e s1 else Returned s1) = Returned s2"
    "resize e (initial_rect e) (setupEventListeners e (createNodes e s2)) = Returned s3"
    "run_frame_callback e (initial_now e) (animate_method s3) s3 = Returned s"
    by (rule construct_Constructed)
  have s1: "performanceLevel s1 = High" "options s1 = spread default_options opts"
    using initWebGL_Returned[OF ch(2) constructed_has_webgl[OF assms]]
    by (simp_all add: initial_network_fields)
  have s2: "performanceLevel s2 = startup_tier e opts"
  proof (cases "adaptivePerformance (options s1)")
    case True
    with ch(3) have "checkPerformance e s1 = Returned s2" by simp
    from checkPerformance_Returned[OF this s1(1)] True s1(2) show ?thesis
      by (simp add: startup_tier_def)
  next
    case False
    with ch(3) s1 show ?thesis by (simp add: startup_tier_def)
  qed
  have "performanceLevel s3 = performanceLevel s2"
    using resize_Returned_level[OF ch(4)] by (simp add: setupEventListeners_fields createNodes_more_fields)
  then show ?thesis using frame_callback_Returned_level[OF ch(5)] s2 by simp
qed

subsection \<open>The node count\<close>












subsection \<open>The number of nodes over a session\<close>

















subsection \<open>The Canvas fallback\<close>


lemma push_nodes_none: "push_nodes rnd w h opts 0 k = []"
  by simp




lemma checkPerformance_width: "width (state_of (checkPerformance e s)) = width s"
  by (simp add: checkPerformance_def runWebGLBenchmark_def Let_def gl_do_cases and_then_def
      split: option.splits)





subsection \<open>The listener table over a session\<close>

lemma fresh_ok_registry: "registry t = registry s \<Longrightarrow> fresh_ok t = fresh_ok s"
  by (simp add: registry_def fresh_ok_def)

lemma frame_callback_registry: "registry (state_of (run_frame_callback e now cb s)) = registry s"
  by (simp add: registry_def frame_defs split: option.splits frame_callback.splits)

lemma settle_registry: "registry (settle r) = registry (state_of r)"
  by (cases r) (simp_all add: settle_def registry_def)

lemma frames_registry:
  "registry (foldl (\<lambda>st cb. settle (run_frame_callback e now cb st)) s q) = registry s"
  by (induction q arbitrary: s) (simp_all add: settle_registry frame_callback_registry)

lemma resize_registry: "registry (state_of (resize e r s)) = registry s"
  by (simp add: registry_def resize_def Let_def and_then_def gl_do_cases split: option.splits)

lemma handle_registry: "registry (state_of (handle e ev h s)) = registry s"
  by (simp add: handle_def resize_registry handleMouseMove_def handleTouchMove_def
      split: handler.splits event.splits option.splits list.splits prod.splits)
     (simp_all add: registry_def)

lemma dispatch_fold_registry:
  "registry (foldl (\<lambda>st (tg', ty', f, h). if tg' = tg \<and> ty' = ty then settle (handle e ev h st) else st) s ls)
     = registry s"
  by (induction ls arbitrary: s) (simp_all add: settle_registry handle_registry split: prod.splits)

lemma dispatch_registry: "registry (dispatch e ev s) = registry s"
  by (simp add: dispatch_def dispatch_fold_registry split: option.splits prod.splits)

lemma createNodes_registry: "registry (createNodes e s) = registry s"
  by (simp add: registry_def createNodes_def Let_def)

lemma updateOptions_registry: "registry (updateOptions e p s) = registry s"
  by (simp add: updateOptions_def Let_def createNodes_registry) (simp add: registry_def)

lemma step_fresh: "fresh_ok s \<Longrightarrow> fresh_ok (step e ev s)"
proof (cases ev)
  case (AnimationFrame now)
  assume "fresh_ok s"
  then have "fresh_ok (s\<lparr> frame_queue := [] \<rparr>)" by (simp add: fresh_ok_def)
  then show ?thesis
    using AnimationFrame fresh_ok_registry[OF frames_registry, of e now "s\<lparr> frame_queue := [] \<rparr>" "frame_queue s"]
    by (simp add: step_def)
next
  case (IntersectionChange b)
  assume "fresh_ok s"
  then show ?thesis using IntersectionChange by (simp add: step_def fresh_ok_def)
next
  case (UpdateOptions p)
  assume "fresh_ok s"
  then show ?thesis using UpdateOptions fresh_ok_registry[OF updateOptions_registry, of e p s]
    by (simp add: step_def)
next
  case Destroy
  assume "fresh_ok s"
  then show ?thesis using Destroy by (simp add: step_def fresh_ok_destroy)
qed (simp_all add: step_def fresh_ok_registry[OF dispatch_registry])

lemma run_fresh: "fresh_ok s \<Longrightarrow> fresh_ok (run e evs s)"
  unfolding run_def by (induction evs arbitrary: s) (simp_all add: step_fresh)

lemma fresh_ok_add: "fresh_ok s \<Longrightarrow> fresh_ok (addEventListener tg ty h s)"
  unfolding fresh_ok_def list_all_iff by (auto simp: addEventListener_def new_function_def)

lemma fresh_ok_setup: "fresh_ok s \<Longrightarrow> fresh_ok (setupEventListeners e s)"
proof -
  assume a: "fresh_ok s"
  have vo: "\<And>t v. fresh_ok (t\<lparr> visibilityObserver := v \<rparr>) = fresh_ok t" by (simp add: fresh_ok_def)
  have fold: "\<And>t ls. fresh_ok t \<Longrightarrow>
      fresh_ok (foldl (\<lambda>st (ty, h). addEventListener Container ty h st) t ls)"
  proof -
    fix t :: network and ls :: "(string \<times> handler) list"
    show "fresh_ok t \<Longrightarrow> fresh_ok (foldl (\<lambda>st (ty, h). addEventListener Container ty h st) t ls)"
      by (induction ls arbitrary: t) (auto simp: fresh_ok_add)
  qed
  show ?thesis
    unfolding setupEventListeners_def Let_def
    using a by (auto simp: vo fresh_ok_add intro!: fold fresh_ok_add simp del: foldl.simps)
qed

lemma createShaderProgram_registry:
  "registry (snd (state_of (createShaderProgram e v f s))) = registry s"
  by (simp add: registry_def createShaderProgram_def Let_def gl_alloc_def createProgram_def console_log_def
      split: option.splits prod.splits)

lemma setupShaders_registry: "registry (state_of (setupShaders e s)) = registry s"
proof -
  have 1: "registry (snd (state_of (createShaderProgram e NodeVertex NodeFragment s))) = registry s"
    by (rule createShaderProgram_registry)
  show ?thesis
  proof (cases "createShaderProgram e NodeVertex NodeFragment s")
    case (Threw err ps)
    then show ?thesis using 1 by (cases ps) (simp add: setupShaders_def)
  next
    case (Returned ps)
    obtain np s1 where ps: "ps = (np, s1)" by (cases ps)
    have s1: "registry s1 = registry s" using 1 Returned ps by simp
    have 2: "registry (snd (state_of (createShaderProgram e ConnectionVertex ConnectionFragment
         (s1\<lparr> nodeProgram := np \<rparr>)))) = registry s"
      using createShaderProgram_registry[of e ConnectionVertex ConnectionFragment "s1\<lparr> nodeProgram := np \<rparr>"] s1
      by (simp add: registry_def)
    show ?thesis
    proof (cases "createShaderProgram e ConnectionVertex ConnectionFragment (s1\<lparr> nodeProgram := np \<rparr>)")
      case (Threw err qs)
      then show ?thesis using 2 Returned ps by (cases qs) (simp add: setupShaders_def)
    next
      case inner: (Returned qs)
      obtain cp s2 where qs: "qs = (cp, s2)" by (cases qs)
      have "\<And>x. registry (s2\<lparr> connectionProgram := x \<rparr>) = registry s"
        using 2 inner qs by (simp add: registry_def)
      then show ?thesis using Returned ps inner qs by (simp add: setupShaders_def Let_def)
    qed
  qed
qed

lemma createBuffers_registry: "registry (state_of (createBuffers s)) = registry s"
  by (simp add: registry_def createBuffers_def Let_def createBuffer_def gl_alloc_def
      split: option.splits prod.splits)

lemma fallbackToCanvas_registry: "registry (fallbackToCanvas e s) = registry s"
  by (simp add: registry_def fallbackToCanvas_def Let_def console_log_def createNodes_def)

lemma state_of_and_then:
  "state_of (and_then r f) = (case r of Returned u \<Rightarrow> state_of (f u) | Threw err u \<Rightarrow> u)"
  by (cases r) (simp_all add: and_then_def)

lemma initWebGL_registry: "registry (state_of (initWebGL e s)) = registry s"
proof (cases "webgl_context e")
  case False
  then show ?thesis
    by (simp add: initWebGL_def Let_def fallbackToCanvas_registry) (simp add: registry_def console_log_def)
next
  case True
  define s1 where "s1 = s\<lparr> canvas := Some \<lparr> c_width = 300, c_height = 150, style_width = None,
       style_height = None, in_dom = True \<rparr>, gl := Some new_context \<rparr>"
  have s1: "registry s1 = registry s" by (simp add: s1_def registry_def)
  have "registry (state_of (and_then (setupShaders e s1) createBuffers)) = registry s"
    using setupShaders_registry[of e s1] s1
    by (cases "setupShaders e s1") (simp_all add: and_then_def createBuffers_registry)
  then show ?thesis using True by (simp add: initWebGL_def Let_def s1_def)
qed

lemma checkPerformance_registry: "registry (state_of (checkPerformance e s)) = registry s"
  by (simp add: registry_def checkPerformance_def runWebGLBenchmark_def Let_def gl_do_cases and_then_def
      split: option.splits)

lemma setupEventListeners_next: "next_function s \<le> next_function (setupEventListeners e s)"
  by (simp add: setupEventListeners_def Let_def addEventListener_def new_function_def)

lemma constructed_fresh:
  assumes "construct e arg opts = Constructed s"
  shows "fresh_ok s"
proof -
  from assms obtain c s1 s2 s3 where ch: "resolve_container e arg = Some c"
    "initWebGL e (initial_network e c opts) = Returned s1"
    "(if adaptivePerformance (options s1) then checkPerformance e s1 else Returned s1) = Returned s2"
    "resize e (initial_rect e) (setupEventListeners e (createNodes e s2)) = Returned s3"
    "run_frame_callback e (initial_now e) (animate_method s3) s3 = Returned s"
    by (rule construct_Constructed)
  have "fresh_ok (initial_network e c opts)" by (simp add: fresh_ok_def initial_network_def)
  then have "fresh_ok s1"
    using fresh_ok_registry[OF initWebGL_registry, of e "initial_network e c opts"] ch(2) by simp
  then have "fresh_ok s2"
    using fresh_ok_registry[OF checkPerformance_registry, of e s1] ch(3) by (auto split: if_splits)
  then have "fresh_ok (createNodes e s2)"
    using fresh_ok_registry[OF createNodes_registry, of e s2] by simp
  then have "fresh_ok (setupEventListeners e (createNodes e s2))" by (rule fresh_ok_setup)
  then have "fresh_ok s3"
    using fresh_ok_registry[OF resize_registry, of e "initial_rect e" "setupEventListeners e (createNodes e s2)"]
      ch(4) by simp
  then show ?thesis
    using fresh_ok_registry[OF frame_callback_registry, of e "initial_now e" "animate_method s3" s3] ch(5)
    by simp
qed

subsection \<open>Example sessions\<close>

lemmas construct_eval = construct_def resolve_container_def no_options_def initial_network_def
   spread_def default_options_def initWebGL_def and_then_def setupShaders_def createShaderProgram_def
   gl_alloc_def createProgram_def new_context_def createBuffers_def createBuffer_def Let_def
   checkPerformance_def isLowEndDevice_def isMidRangeDevice_def regex_test_def lower_char_def
   runWebGLBenchmark_def gl_do_def with_gl_def createNodes_def adjustNodeCountForPerformance_def
   setupEventListeners_def addEventListener_def new_function_def resize_def
   run_frame_callback_def animate_def updateNodes_def prepareNodeData_def prepareConnectionData_def
   connections_def clear_def renderConnections_def renderNodes_def nodeData_count_def
   connectionData_count_def console_log_def fallbackToCanvas_def

lemma desktop_construction:
  "construct desktop (Selector ''#hero'') no_options = Constructed desktop_started"
  by (simp add: construct_eval desktop_def desktop_started_def)


lemmas session_eval = run_def step_def dispatch_def handle_def settle_def updateOptions_def
  destroy_def remove_listeners_def stop_observing_def remove_canvas_def delete_resources_def
  removeEventListener_def deleteBuffer_def deleteProgram_def gl_call_def
  update_node_def integrate_def reflect_x_def reflect_y_def pulse_def mouse_interaction_def
  node_distance_def mouse_distance_def mouse_segment_def new_node_def
  handleMouseMove_def handleTouchMove_def

lemma push_two_nodes:
  "push_nodes rnd w h opts 2 k = [new_node rnd k w h opts, new_node rnd (k + 7) w h opts]"
  by (simp add: numeral_2_eq_2)

lemma desktop_seeding:
  "run desktop [UpdateOptions (no_options\<lparr> new_nodeCount := Some 2 \<rparr>)] desktop_started = desktop_seeded"
  by (simp add: desktop_seeded_def seed_node_def run_def step_def updateOptions_def createNodes_def
      adjustNodeCountForPerformance_def Let_def spread_def no_options_def default_options_def
      desktop_started_def desktop_def push_two_nodes new_node_def)


section \<open>The claims\<close>







text \<open>
  C3. One tick maps \<open>update_node\<close> over the nodes and changes nothing else of the
  instance. For each node: the position is advanced by the velocity and reflected at the
  borders; with pulsing enabled the size becomes
  \<open>originalSize * (1 + 0.2 * sin (time * 0.002 + pulseOffset))\<close>, otherwise it stays;
  base size and phase stay; with the pointer active and closer than
  \<open>connectionDistance * 1.5\<close> the velocity (after reflection) gets the pointer vector
  \<open>(dx, dy)\<close> times \<open>(1 - distance / maxDistance) * 0.05 * - 1\<close> added (the factor
  \<open>- 1\<close> repels) and is then scaled down to magnitude \<open>speed * 2\<close> when it exceeds it,
  so that its magnitude is at most \<open>speed * 2\<close> for a speed option that is not negative.
\<close>

theorem simulation_tick:
  "updateNodes s = s\<lparr> nodes := map (update_node s) (nodes s) \<rparr>
   \<and> (let n' = update_node s n;
          x1 = node_x n + vx n;
          y1 = node_y n + vy n;
          out_x = (x1 < 0 \<or> x1 > width s);
          out_y = (y1 < 0 \<or> y1 > height s);
          vx2 = (if out_x then - vx n else vx n);
          vy2 = (if out_y then - vy n else vy n);
          dx = mouse_x (mouse s) - node_x n';
          dy = mouse_y (mouse s) - node_y n';
          distance = sqrt (dx * dx + dy * dy);
          maxDistance = connectionDistance (options s) * 1.5;
          near = (active (mouse s) \<and> distance < maxDistance);
          k = (1 - distance / maxDistance) * 0.05 * - 1;
          vx3 = (if near then vx2 + dx * k else vx2);
          vy3 = (if near then vy2 + dy * k else vy2);
          magnitude = sqrt (vx3 * vx3 + vy3 * vy3);
          limit = speed (options s) * 2;
          fast = (near \<and> magnitude > limit)
      in node_x n' = (if out_x then max 0 (min (width s) x1) else x1)
         \<and> node_y n' = (if out_y then max 0 (min (height s) y1) else y1)
         \<and> node_size n' = (if pulseEffect (options s)
                            then originalSize n * (1 + 0.2 * sin (time s * 0.002 + pulseOffset n))
                            else node_size n)
         \<and> originalSize n' = originalSize n
         \<and> pulseOffset n' = pulseOffset n
         \<and> vx n' = (if fast then vx3 * (limit / magnitude) else vx3)
         \<and> vy n' = (if fast then vy3 * (limit / magnitude) else vy3)
         \<and> (near \<and> 0 \<le> speed (options s) \<longrightarrow> sqrt (vx n' * vx n' + vy n' * vy n') \<le> limit))"
proof -
  define b where "b = pulse (options s) (time s) (reflect_y (height s) (reflect_x (width s) (integrate n)))"
  have n': "update_node s n = mouse_interaction (options s) (mouse s) b"
    by (simp add: update_node_def b_def)
  note bf = before_pointer_fields[of s n, folded b_def]
  have limit: "mouse_distance (mouse s) b = sqrt ((mouse_x (mouse s) - node_x b) * (mouse_x (mouse s) - node_x b)
       + (mouse_y (mouse s) - node_y b) * (mouse_y (mouse s) - node_y b))"
    by (simp add: mouse_distance_def Let_def)
  have bound: "active (mouse s) \<and> sqrt ((mouse_x (mouse s) - node_x b) * (mouse_x (mouse s) - node_x b)
       + (mouse_y (mouse s) - node_y b) * (mouse_y (mouse s) - node_y b)) < connectionDistance (options s) * 1.5
       \<and> 0 \<le> speed (options s)
     \<longrightarrow> sqrt (vx (update_node s n) * vx (update_node s n) + vy (update_node s n) * vy (update_node s n))
         \<le> speed (options s) * 2"
    unfolding n' limit[symmetric] using mouse_interaction_speed_limit[of "options s" "mouse s" b] by blast
  have pos: "node_x (update_node s n) = node_x b" "node_y (update_node s n) = node_y b"
    "node_size (update_node s n) = node_size b" "originalSize (update_node s n) = originalSize b"
    "pulseOffset (update_node s n) = pulseOffset b"
    by (simp_all add: n' mouse_interaction_fields)
  have vel: "vx (update_node s n) =
     (let dx = mouse_x (mouse s) - node_x b; dy = mouse_y (mouse s) - node_y b;
          d = sqrt (dx * dx + dy * dy);
          maxDistance = connectionDistance (options s) * 1.5;
          near = (active (mouse s) \<and> d < maxDistance);
          k = (1 - d / maxDistance) * 0.05 * - 1;
          vx3 = (if near then vx b + dx * k else vx b);
          vy3 = (if near then vy b + dy * k else vy b);
          magnitude = sqrt (vx3 * vx3 + vy3 * vy3);
          limit = speed (options s) * 2
      in if near \<and> magnitude > limit then vx3 * (limit / magnitude) else vx3)"
    "vy (update_node s n) =
     (let dx = mouse_x (mouse s) - node_x b; dy = mouse_y (mouse s) - node_y b;
          d = sqrt (dx * dx + dy * dy);
          maxDistance = connectionDistance (options s) * 1.5;
          near = (active (mouse s) \<and> d < maxDistance);
          k = (1 - d / maxDistance) * 0.05 * - 1;
          vx3 = (if near then vx b + dx * k else vx b);
          vy3 = (if near then vy b + dy * k else vy b);
          magnitude = sqrt (vx3 * vx3 + vy3 * vy3);
          limit = speed (options s) * 2
      in if near \<and> magnitude > limit then vy3 * (limit / magnitude) else vy3)"
    unfolding n' by (rule mouse_interaction_velocity)+
  show ?thesis
    unfolding Let_def
    apply (intro conjI)
            apply (simp add: updateNodes_def)
           apply (simp only: pos bf)
          apply (simp only: pos bf)
         apply (simp only: pos bf)
        apply (simp only: pos bf)
       apply (simp only: pos bf)
      apply (simp only: vel(1) Let_def pos bf(3,4)[symmetric])
     apply (simp only: vel(2) Let_def pos bf(3,4)[symmetric])
    using bound apply (simp only: pos conj_assoc)
    done
qed

lemma pointer_state_fields:
  "width pointer_state = 1920" "height pointer_state = 1080" "time pointer_state = 0"
  "mouse pointer_state = \<lparr> mouse_x = 534, mouse_y = 342, active = True \<rparr>"
  "options pointer_state = default_options"
  by (simp_all add: pointer_state_def desktop_started_def)

theorem simulation_tick_witness:
  "active (mouse pointer_state) \<and> 0 \<le> speed (options pointer_state)
   \<and> mouse_distance (mouse pointer_state) (update_node pointer_state still_node) = 90
   \<and> node_x (update_node pointer_state still_node) = 480
   \<and> node_y (update_node pointer_state still_node) = 270
   \<and> node_size (update_node pointer_state still_node) = 3
   \<and> vx (update_node pointer_state still_node) = - 0.6
   \<and> vy (update_node pointer_state still_node) = - 0.8
   \<and> sqrt (vx (update_node pointer_state still_node) * vx (update_node pointer_state still_node)
           + vy (update_node pointer_state still_node) * vy (update_node pointer_state still_node))
       \<le> speed (options pointer_state) * 2"
proof -
  note tick = simulation_tick[of pointer_state still_node, unfolded Let_def, THEN conjunct2]
  have sn: "node_x still_node = 480" "node_y still_node = 270" "vx still_node = 0" "vy still_node = 0"
    "node_size still_node = 2" "originalSize still_node = 3" "pulseOffset still_node = 0"
    by (simp_all add: still_node_def)
  have opts: "speed default_options = 1 / 2" "connectionDistance default_options = 120"
    "pulseEffect default_options"
    by (simp_all add: default_options_def)
  have x: "node_x (update_node pointer_state still_node) = 480"
    using tick[THEN conjunct1] by (simp add: pointer_state_fields sn)
  have y: "node_y (update_node pointer_state still_node) = 270"
    using tick[THEN conjunct2, THEN conjunct1] by (simp add: pointer_state_fields sn)
  have size: "node_size (update_node pointer_state still_node) = 3"
    using tick[THEN conjunct2, THEN conjunct2, THEN conjunct1]
    by (simp add: pointer_state_fields sn opts)
  have d: "mouse_distance (mouse pointer_state) (update_node pointer_state still_node) = 90"
    by (simp add: mouse_distance_def x y pointer_state_fields)
  have m: "sqrt (81 / 16) = 9 / (4 :: real)"
    by (simp add: real_sqrt_divide)
  have v: "vx (update_node pointer_state still_node) = - 0.6"
    using tick[THEN conjunct2, THEN conjunct2, THEN conjunct2, THEN conjunct2, THEN conjunct2, THEN conjunct1]
    by (simp add: x y pointer_state_fields sn opts m cong: if_cong)
  have w: "vy (update_node pointer_state still_node) = - 0.8"
    using tick[THEN conjunct2, THEN conjunct2, THEN conjunct2, THEN conjunct2, THEN conjunct2, THEN conjunct2,
        THEN conjunct1]
    by (simp add: x y pointer_state_fields sn opts m cong: if_cong)
  have near: "active (mouse pointer_state)
     \<and> sqrt ((mouse_x (mouse pointer_state) - node_x (update_node pointer_state still_node))
              * (mouse_x (mouse pointer_state) - node_x (update_node pointer_state still_node))
            + (mouse_y (mouse pointer_state) - node_y (update_node pointer_state still_node))
              * (mouse_y (mouse pointer_state) - node_y (update_node pointer_state still_node)))
         < connectionDistance (options pointer_state) * 1.5"
    by (simp add: x y pointer_state_fields opts)
  have speed: "0 \<le> speed (options pointer_state)"
    by (simp add: pointer_state_fields opts)
  have bound: "sqrt (vx (update_node pointer_state still_node) * vx (update_node pointer_state still_node)
           + vy (update_node pointer_state still_node) * vy (update_node pointer_state still_node))
       \<le> speed (options pointer_state) * 2"
    using tick[THEN conjunct2, THEN conjunct2, THEN conjunct2, THEN conjunct2, THEN conjunct2, THEN conjunct2,
        THEN conjunct2] near speed by blast
  show ?thesis
    using near speed d x y size v w bound by blast
qed

lemma phone_construction:
  "construct phone (Selector ''#hero'') no_options = Constructed phone_started"
  by (simp add: construct_eval desktop_def phone_def phone_started_def desktop_started_def)

lemma phone_low_end: "isLowEndDevice phone"
  by (simp add: isLowEndDevice_def phone_def desktop_def)

text \<open>
  C4 (the code does not do this). A fragment shader that does not compile makes
  \<^verbatim>\<open>createShaderProgram\<close> log the error and return \<^verbatim>\<open>null\<close>; \<^verbatim>\<open>setupShaders\<close>
  does not test the handle and sets a property on it, so the constructor throws a
  TypeError to its caller. No fallback is taken (no 2D context, the frame callback is not
  replaced), no listener is registered and no frame is requested.
\<close>

theorem shader_failure_aborts_construction:
  "(case construct broken_shader (Selector ''#hero'') no_options of
      Aborted err t \<Rightarrow> err = TypeError \<and> nodeProgram t = None \<and> gl t \<noteq> None \<and> ctx t = None
         \<and> animate_method t = AnimateGL \<and> frame_queue t = [] \<and> listeners t = []
         \<and> console t = [(Error, ''Fragment shader compilation failed:'')]
    | _ \<Rightarrow> False)"
  by (simp add: construct_eval desktop_def broken_shader_def)

text \<open>
  C5 (the code does not do this). After \<^verbatim>\<open>destroy\<close> every listener is still
  registered and the next frame is still queued; \<^verbatim>\<open>shouldRender\<close> is the only guard.
  When the tab becomes visible again the \<^verbatim>\<open>visibilitychange\<close> listener sets it back
  to true, and the next frame moves the nodes and issues draw calls on the deleted
  buffers and programs.
\<close>

theorem frames_resume_after_destroy:
  "(let d = destroy desktop_seeded;
        t = run desktop [VisibilityChange True, AnimationFrame 16] d
    in \<not> shouldRender d \<and> listeners d = listeners desktop_seeded \<and> frame_queue d = [AnimateGL]
       \<and> map node_x (nodes d) = [480, 480]
       \<and> draws d = [DrawArrays POINTS 1000, DrawArrays LINES 0, DrawArrays POINTS 0]
       \<and> shouldRender t \<and> time t = 16
       \<and> map node_x (nodes t) = [479.875, 479.875]
       \<and> draws t = draws d @ [DrawArrays LINES 2, DrawArrays POINTS 2]
       \<and> uncaught t = [])"
proof -
  have "fresh_ok desktop_seeded"
    by (simp add: fresh_ok_def desktop_seeded_def desktop_started_def)
  note destroyed = destroy_fresh[OF this]
  show ?thesis
    unfolding destroyed
    by (simp add: desktop_seeded_def seed_node_def run_def step_def dispatch_def handle_def settle_def
      update_node_def integrate_def reflect_x_def reflect_y_def pulse_def mouse_interaction_def
      node_distance_def mouse_distance_def mouse_segment_def
      frame_defs connections_def nodeData_count_def connectionData_count_def
      delete_all_def released_def
      desktop_def desktop_started_def default_options_def draws_def)
qed





text \<open>
  C8. The tier of a constructed instance is the one chosen during construction: high
  without adaptive performance, otherwise the tier of the device heuristics, lowered by
  one step (and not below low) when the one benchmark took more than 10 ms. No frame, DOM
  event, option update or disposal changes the tier afterwards.
\<close>

theorem tier_chosen_once:
  "(construct e arg opts = Constructed s
      \<longrightarrow> performanceLevel s = startup_tier e opts \<and> performanceLevel (run e evs s) = startup_tier e opts)
   \<and> performanceLevel (step e ev t) = performanceLevel t
   \<and> performanceLevel (run e evs t) = performanceLevel t"
  using constructed_tier[of e arg opts s] by (simp add: step_level run_level)

theorem tier_chosen_once_witness:
  "construct phone (Selector ''#hero'') no_options = Constructed phone_started
   \<and> startup_tier phone no_options = Low
   \<and> startup_tier desktop no_options = High
   \<and> startup_tier (desktop\<lparr> benchmark_ms := 25 \<rparr>) no_options = Medium
   \<and> performanceLevel (run phone [AnimationFrame 16, WindowResize 1920 1080,
         UpdateOptions (no_options\<lparr> new_nodeCount := Some 400 \<rparr>), AnimationFrame 32] phone_started) = Low"
proof -
  note once = tier_chosen_once[of phone "Selector ''#hero''" no_options phone_started
      "[AnimationFrame 16, WindowResize 1920 1080,
         UpdateOptions (no_options\<lparr> new_nodeCount := Some 400 \<rparr>), AnimationFrame 32]"]
  have adaptive: "adaptivePerformance (spread default_options no_options)"
    by (simp add: spread_def no_options_def default_options_def)
  have 1: "startup_tier phone no_options = Low"
    using adaptive phone_low_end by (simp add: startup_tier_def heuristic_tier_def)
  have 2: "startup_tier desktop no_options = High"
    using adaptive
    by (simp add: startup_tier_def heuristic_tier_def isLowEndDevice_def isMidRangeDevice_def
        regex_test_def lower_char_def desktop_def)
  have 3: "startup_tier (desktop\<lparr> benchmark_ms := 25 \<rparr>) no_options = Medium"
    using adaptive
    by (simp add: startup_tier_def heuristic_tier_def isLowEndDevice_def isMidRangeDevice_def
        regex_test_def lower_char_def desktop_def)
  show ?thesis
    using once phone_construction 1 2 3 by simp
qed

text \<open>
  C9. A second \<^verbatim>\<open>destroy\<close> changes nothing of an instance but the count of function
  objects it created and the record of GL calls: the five delete calls are issued again,
  on handles that are no longer live, which WebGL ignores, so the tables of live buffers
  and programs stay as the first call left them. The canvas is not removed again, and
  listeners and observer are as before. This holds for every constructed instance at any
  point of its session (\<open>fresh_ok\<close>: the registered functions are among those created
  so far). A call of \<^verbatim>\<open>destroy\<close> that follows one that returned returns as well.
\<close>

theorem destroy_idempotent:
  "(destroy_object obj = Returned obj' \<longrightarrow> (\<exists>obj''. destroy_object obj' = Returned obj''))
   \<and> (construct e arg opts = Constructed s0 \<longrightarrow> fresh_ok (run e evs s0))
   \<and> (fresh_ok s \<longrightarrow>
        destroy (destroy s) = (destroy s)\<lparr>
          next_function := next_function (destroy s) + (if interactive (options s) then 7 else 1),
          gl := map_option (\<lambda>g. g\<lparr> gl_calls := gl_calls g @ released s \<rparr>) (gl (destroy s)) \<rparr>
        \<and> map_option live_buffers (gl (destroy (destroy s))) = map_option live_buffers (gl (destroy s))
        \<and> map_option live_programs (gl (destroy (destroy s))) = map_option live_programs (gl (destroy s))
        \<and> canvas (destroy (destroy s)) = canvas (destroy s)
        \<and> listeners (destroy (destroy s)) = listeners (destroy s)
        \<and> visibilityObserver (destroy (destroy s)) = visibilityObserver (destroy s)
        \<and> shouldRender (destroy (destroy s)) = shouldRender (destroy s))"
proof (intro conjI impI)
  assume "destroy_object obj = Returned obj'"
  then show "\<exists>obj''. destroy_object obj' = Returned obj''"
    by (cases obj) (auto simp: destroy_object_def)
next
  assume "construct e arg opts = Constructed s0"
  then show "fresh_ok (run e evs s0)" by (intro run_fresh constructed_fresh)
next
  assume f: "fresh_ok s"
  note twice = destroy_twice[OF f]
  show "destroy (destroy s) = (destroy s)\<lparr>
          next_function := next_function (destroy s) + (if interactive (options s) then 7 else 1),
          gl := map_option (\<lambda>g. g\<lparr> gl_calls := gl_calls g @ released s \<rparr>) (gl (destroy s)) \<rparr>"
    by (rule twice)
  show "map_option live_buffers (gl (destroy (destroy s))) = map_option live_buffers (gl (destroy s))"
    unfolding twice by (cases "gl (destroy s)") simp_all
  show "map_option live_programs (gl (destroy (destroy s))) = map_option live_programs (gl (destroy s))"
    unfolding twice by (cases "gl (destroy s)") simp_all
  show "canvas (destroy (destroy s)) = canvas (destroy s)" unfolding twice by simp
  show "listeners (destroy (destroy s)) = listeners (destroy s)" unfolding twice by simp
  show "visibilityObserver (destroy (destroy s)) = visibilityObserver (destroy s)" unfolding twice by simp
  show "shouldRender (destroy (destroy s)) = shouldRender (destroy s)" unfolding twice by simp
qed

theorem destroy_idempotent_witness:
  "destroy_object (Constructed desktop_seeded) = Returned (Constructed (destroy desktop_seeded))
   \<and> (\<exists>obj. destroy_object (Constructed (destroy desktop_seeded)) = Returned obj)
   \<and> construct desktop (Selector ''#hero'') no_options = Constructed desktop_started
   \<and> fresh_ok (run desktop [UpdateOptions (no_options\<lparr> new_nodeCount := Some 2 \<rparr>)] desktop_started)
   \<and> map_option live_buffers (gl (destroy desktop_seeded)) = Some []
   \<and> map_option live_buffers (gl (destroy (destroy desktop_seeded))) = Some []
   \<and> map_option live_programs (gl (destroy (destroy desktop_seeded))) = Some []
   \<and> canvas (destroy (destroy desktop_seeded)) = canvas (destroy desktop_seeded)
   \<and> listeners (destroy (destroy desktop_seeded)) = listeners (destroy desktop_seeded)"
proof -
  note idem0 = destroy_idempotent[where obj = "Constructed desktop_seeded"
      and obj' = "Constructed (destroy desktop_seeded)" and e = desktop and arg = "Selector ''#hero''"
      and opts = no_options and ?s0.0 = desktop_started
      and evs = "[UpdateOptions (no_options\<lparr> new_nodeCount := Some 2 \<rparr>)]" and s = desktop_seeded]
  have first: "destroy_object (Constructed desktop_seeded) = Returned (Constructed (destroy desktop_seeded))"
    by (simp add: destroy_object_def)
  have again: "\<exists>obj. destroy_object (Constructed (destroy desktop_seeded)) = Returned obj"
    using idem0[THEN conjunct1] first by blast
  note idem = idem0[THEN conjunct2]
  have f: "fresh_ok (run desktop [UpdateOptions (no_options\<lparr> new_nodeCount := Some 2 \<rparr>)] desktop_started)"
    using idem desktop_construction by blast
  then have f': "fresh_ok desktop_seeded" by (simp only: desktop_seeding)
  have once: "map_option live_buffers (gl (destroy desktop_seeded)) = Some []
      \<and> map_option live_programs (gl (destroy desktop_seeded)) = Some []"
    unfolding destroy_fresh[OF f']
    by (simp add: desktop_seeded_def desktop_started_def delete_all_def)
  note second = idem[THEN conjunct2, rule_format, OF f']
  have b: "map_option live_buffers (gl (destroy (destroy desktop_seeded))) = Some []"
    using second[THEN conjunct2, THEN conjunct1] once[THEN conjunct1] by (rule trans)
  have p: "map_option live_programs (gl (destroy (destroy desktop_seeded))) = Some []"
    using second[THEN conjunct2, THEN conjunct2, THEN conjunct1] once[THEN conjunct2] by (rule trans)
  have c: "canvas (destroy (destroy desktop_seeded)) = canvas (destroy desktop_seeded)"
    by (rule second[THEN conjunct2, THEN conjunct2, THEN conjunct2, THEN conjunct1])
  have l: "listeners (destroy (destroy desktop_seeded)) = listeners (destroy desktop_seeded)"
    by (rule second[THEN conjunct2, THEN conjunct2, THEN conjunct2, THEN conjunct2, THEN conjunct1])
  show ?thesis
    using first again desktop_construction f once[THEN conjunct1] b p c l by blast
qed



end
